theory Spec2Isabelle
  imports Complex_Main "HOL-Library.Sublist"
begin

section \<open>Python values, exceptions and strings\<close>

text \<open>
  The exceptions the modelled functions can end with. \<open>SysExit msg\<close> is
  \<^verbatim>\<open>sys.exit(msg)\<close>; \<open>KeyError k\<close> is a failed dictionary lookup of \<open>k\<close>;
  \<open>ValueError\<close> is a failed conversion of a string to a number;
  \<open>Raised msg\<close> is any exception coming out of a function that is called but
  not defined in the modelled files.
\<close>

datatype exn =
    KeyError string
  | ValueError
  | IndexError
  | TypeError
  | SysExit string
  | Raised string

definition bindE :: "exn + 'a \<Rightarrow> ('a \<Rightarrow> exn + 'b) \<Rightarrow> exn + 'b" where
  "bindE m f = (case m of Inl e \<Rightarrow> Inl e | Inr x \<Rightarrow> f x)"

text \<open>
  \<^verbatim>\<open>str.strip()\<close> removes white space at both ends, \<^verbatim>\<open>str.strip(chars)\<close>
  removes the characters of \<open>chars\<close> at both ends. The text of the input file is
  taken to be ASCII; the white space of ASCII is the characters 9 to 13, 28 to
  31 and the blank.
\<close>

definition py_isspace :: "char \<Rightarrow> bool" where
  "py_isspace c = (of_char c \<in> set [9, 10, 11, 12, 13, 28, 29, 30, 31, 32 :: nat])"

definition strip_with :: "(char \<Rightarrow> bool) \<Rightarrow> string \<Rightarrow> string" where
  "strip_with p s = rev (dropWhile p (rev (dropWhile p s)))"

definition strip :: "string \<Rightarrow> string" where
  "strip s = strip_with py_isspace s"

definition strip_chars :: "string \<Rightarrow> string \<Rightarrow> string" where
  "strip_chars chars s = strip_with (\<lambda>c. c \<in> set chars) s"

text \<open>\<^verbatim>\<open>s.split(c)\<close> for a one-character separator: the empty string gives one empty piece.\<close>

fun split_on :: "char \<Rightarrow> string \<Rightarrow> string list" where
  "split_on c [] = [[]]"
| "split_on c (x # xs) =
     (if x = c then [] # split_on c xs
      else (case split_on c xs of
              [] \<Rightarrow> [[x]]
            | w # ws \<Rightarrow> (x # w) # ws))"

text \<open>\<^verbatim>\<open>s.split('=', 1)\<close> on a string that holds an \<^verbatim>\<open>=\<close>: the text before the first one and the text after it.\<close>

definition split_first :: "char \<Rightarrow> string \<Rightarrow> string \<times> string" where
  "split_first c s = (takeWhile (\<lambda>x. x \<noteq> c) s, drop 1 (dropWhile (\<lambda>x. x \<noteq> c) s))"

text \<open>\<^verbatim>\<open>str(n)\<close> of an integer: its decimal numeral, with a minus sign when negative.\<close>

definition digit_char :: "nat \<Rightarrow> char" where
  "digit_char d = char_of (48 + d)"

fun str_nat :: "nat \<Rightarrow> string" where
  "str_nat n = (if n < 10 then [digit_char n] else str_nat (n div 10) @ [digit_char (n mod 10)])"

declare str_nat.simps [simp del]

definition str_int :: "int \<Rightarrow> string" where
  "str_int i = (if i < 0 then CHR ''-'' # str_nat (nat (- i)) else str_nat (nat i))"

section \<open>Reading the input file\<close>

text \<open>
  The conversions of a string to a number are Python's and numpy's own; they are
  parameters of the model. \<open>py_float s\<close> is \<^verbatim>\<open>float(s)\<close> and \<open>py_int s\<close> is
  \<^verbatim>\<open>int(s)\<close>, with \<open>None\<close> for a ValueError; \<open>np_float\<close> and \<open>np_int\<close> are the
  conversions numpy applies to each string of \<^verbatim>\<open>np.array(xs, dtype=float)\<close> and
  \<^verbatim>\<open>np.array(xs, dtype=int)\<close>, and to a string stored into a float array;
  \<open>fzero\<close> is the float \<^verbatim>\<open>0.0\<close>.
\<close>

record 'f pyenv =
  py_float :: "string \<Rightarrow> 'f option"
  py_int :: "string \<Rightarrow> int option"
  np_float :: "string \<Rightarrow> 'f option"
  np_int :: "string \<Rightarrow> int option"
  fzero :: 'f

type_synonym pydict = "string \<rightharpoonup> string"

text \<open>
  Lines 187 to 194: every line whose stripped text holds an \<^verbatim>\<open>=\<close> stores the
  stripped text after the first \<^verbatim>\<open>=\<close> under the stripped text before it; a later
  line overwrites an earlier one with the same key.
\<close>

definition read_line :: "string \<Rightarrow> pydict \<Rightarrow> pydict" where
  "read_line line inp =
     (if CHR ''='' \<in> set (strip line)
      then (case split_first CHR ''='' (strip line) of (key, val) \<Rightarrow> inp(strip key \<mapsto> strip val))
      else inp)"

definition read_lines :: "string list \<Rightarrow> pydict" where
  "read_lines ls = fold read_line ls Map.empty"

definition lookup :: "pydict \<Rightarrow> string \<Rightarrow> exn + string" where
  "lookup inp k = (case inp k of None \<Rightarrow> Inl (KeyError k) | Some v \<Rightarrow> Inr v)"

text \<open>\<^verbatim>\<open>[x.strip() for x in v.strip(chars).split(',')]\<close>\<close>

definition str_list :: "string \<Rightarrow> string \<Rightarrow> string list" where
  "str_list chars v = map strip (split_on CHR '','' (strip_chars chars v))"

definition convert :: "('b \<Rightarrow> 'a option) \<Rightarrow> 'b \<Rightarrow> exn + 'a" where
  "convert f s = (case f s of None \<Rightarrow> Inl ValueError | Some y \<Rightarrow> Inr y)"

fun convert_all :: "(string \<Rightarrow> 'a option) \<Rightarrow> string list \<Rightarrow> exn + 'a list" where
  "convert_all f [] = Inr []"
| "convert_all f (x # xs) =
     bindE (convert f x) (\<lambda>y. bindE (convert_all f xs) (\<lambda>ys. Inr (y # ys)))"

fun foldE :: "('a \<Rightarrow> 's \<Rightarrow> exn + 's) \<Rightarrow> 'a list \<Rightarrow> 's \<Rightarrow> exn + 's" where
  "foldE f [] s = Inr s"
| "foldE f (x # xs) s = bindE (f x s) (foldE f xs)"

subsection \<open>Hazard parameters (lines 198 to 224)\<close>

definition int_array :: "'f pyenv \<Rightarrow> pydict \<Rightarrow> string \<Rightarrow> exn + int list" where
  "int_array env inp k =
     bindE (lookup inp k) (\<lambda>v. convert_all (np_int env) (str_list ''{}'' v))"

definition float_array :: "'f pyenv \<Rightarrow> pydict \<Rightarrow> string \<Rightarrow> string \<Rightarrow> exn + 'f list" where
  "float_array env inp chars k =
     bindE (lookup inp k) (\<lambda>v. convert_all (np_float env) (str_list chars v))"

definition int_value :: "'f pyenv \<Rightarrow> pydict \<Rightarrow> string \<Rightarrow> exn + int" where
  "int_value env inp k = bindE (lookup inp k) (convert (py_int env))"

definition float_value :: "'f pyenv \<Rightarrow> pydict \<Rightarrow> string \<Rightarrow> exn + 'f" where
  "float_value env inp k = bindE (lookup inp k) (convert (py_float env))"

definition rlz_code_msg :: string where
  "rlz_code_msg = ''Error: rlz_code must be an array of the same length of site_code''"

definition poe_size_msg :: string where
  "poe_size_msg =
     ''Error: probability_of_exceedance_num must be of the same size of probability_of_exceedance''"

text \<open>
  The check of lines 219 to 223 compares the length of
  \<open>probability_of_exceedance_num\<close> with the length of
  \<open>probability_of_exceedance_num\<close>, as the source does.
\<close>

definition hazard_parameters ::
  "'f pyenv \<Rightarrow> pydict \<Rightarrow>
   exn + (string list \<times> int list \<times> int list \<times> string \<times> string \<times> int \<times> int \<times>
          int list \<times> string list \<times> 'f)" where
  "hazard_parameters env inp =
     bindE (lookup inp ''intensity_measures'') (\<lambda>ims.
     bindE (int_array env inp ''site_code'') (\<lambda>site_code.
     bindE (int_array env inp ''rlz_code'') (\<lambda>rlz_code.
     if length rlz_code \<noteq> length site_code then Inl (SysExit rlz_code_msg)
     else
     bindE (lookup inp ''path_results_classical'') (\<lambda>path_results_classical.
     bindE (lookup inp ''path_results_disagg'') (\<lambda>path_results_disagg.
     bindE (int_value env inp ''num_disagg'') (\<lambda>num_disagg.
     bindE (int_value env inp ''num_classical'') (\<lambda>num_classical.
     bindE (int_array env inp ''probability_of_exceedance_num'') (\<lambda>probability_of_exceedance_num.
     bindE (lookup inp ''probability_of_exceedance'') (\<lambda>poes.
     if length probability_of_exceedance_num \<noteq> length probability_of_exceedance_num
     then Inl (SysExit poe_size_msg)
     else
     bindE (float_value env inp ''investigation_time'') (\<lambda>investigation_time.
     Inr (str_list ''{}'' ims, site_code, rlz_code, path_results_classical,
          path_results_disagg, num_disagg, num_classical, probability_of_exceedance_num,
          str_list ''{}'' poes, investigation_time)))))))))))"

subsection \<open>Conditional spectrum parameters (lines 226 to 325)\<close>

definition unsupported_msg :: "string \<Rightarrow> string" where
  "unsupported_msg im = ''Error: this intensity measure type '' @ im @ '' is not supported yet''"

text \<open>
  One pass of the loop of lines 236 to 254 for index \<open>i\<close>, on the four variables
  the loop writes: \<open>tstar\<close>, \<open>im_type\<close>, \<open>im_type_lbl\<close> and \<open>avg_periods\<close>.
  Storing the stripped name into the float array \<open>tstar\<close> converts it.
\<close>

definition im_step ::
  "'f pyenv \<Rightarrow> pydict \<Rightarrow> string list \<Rightarrow> nat \<Rightarrow>
   'f list \<times> string list \<times> string list \<times> 'f list \<Rightarrow>
   exn + ('f list \<times> string list \<times> string list \<times> 'f list)" where
  "im_step env inp intensity_measures i st =
     (case st of (tstar, im_type, im_type_lbl, avg_periods) \<Rightarrow>
      if intensity_measures ! i = ''AvgSA'' then
        bindE (float_array env inp ''[]'' ''avg_periods'') (\<lambda>avg.
        Inr (tstar, im_type @ [''AvgSA''], im_type_lbl @ [''AvgSa''], avg))
      else if take 2 (intensity_measures ! i) = ''SA'' then
        bindE (convert (np_float env) (strip_chars ''(,),SA'' (intensity_measures ! i))) (\<lambda>t.
        Inr (tstar[i := t], im_type @ [''SA''], im_type_lbl @ [''Sa(T)''], avg_periods))
      else if take 3 (intensity_measures ! i) = ''PGA'' then
        Inr (tstar[i := fzero env], im_type @ [''PGA''], im_type_lbl @ [''PGA''], avg_periods)
      else Inl (SysExit (unsupported_msg (intensity_measures ! i))))"

definition im_loop ::
  "'f pyenv \<Rightarrow> pydict \<Rightarrow> string list \<Rightarrow>
   exn + ('f list \<times> string list \<times> string list \<times> 'f list)" where
  "im_loop env inp intensity_measures =
     foldE (im_step env inp intensity_measures) [0 ..< length intensity_measures]
       (replicate (length intensity_measures) (fzero env), [], [], [])"


definition site_list :: "pydict \<Rightarrow> string \<Rightarrow> nat \<Rightarrow> string \<Rightarrow> exn + string list" where
  "site_list inp k n msg =
     bindE (lookup inp k) (\<lambda>v.
     if length (str_list ''{}'' v) \<noteq> n then Inl (SysExit msg) else Inr (str_list ''{}'' v))"

text \<open>An optional entry: a missing key is caught (\<^verbatim>\<open>except KeyError\<close>) and leaves \<^verbatim>\<open>None\<close>.\<close>

definition optional :: "pydict \<Rightarrow> string \<Rightarrow> (string \<Rightarrow> exn + 'a) \<Rightarrow> exn + 'a option" where
  "optional inp k f =
     (case inp k of None \<Rightarrow> Inr None | Some v \<Rightarrow> bindE (f v) (\<lambda>x. Inr (Some x)))"

definition fhw_value_msg :: string where
  "fhw_value_msg = ''Error: The hanging_wall_flag must be =1 or =-1''"

definition azimuth_fhw_msg :: string where
  "azimuth_fhw_msg = ''Error: The azimuth or the hanging_wall_flag must be defined''"

text \<open>
  Lines 284 to 295. \<open>hanging_wall_flag\<close> is looked up only in the handler of the
  KeyError of \<open>azimuth\<close>.
\<close>

definition azimuth_fhw :: "'f pyenv \<Rightarrow> pydict \<Rightarrow> exn + ('f option \<times> int option)" where
  "azimuth_fhw env inp =
     (case inp ''azimuth'' of
        Some v \<Rightarrow> bindE (convert (py_float env) v) (\<lambda>a. Inr (Some a, None))
      | None \<Rightarrow>
          (case inp ''hanging_wall_flag'' of
             Some v \<Rightarrow>
               bindE (convert (py_int env) v) (\<lambda>fhw.
               if fhw \<noteq> 1 \<and> fhw \<noteq> - 1 then Inl (SysExit fhw_value_msg)
               else Inr (None, Some fhw))
           | None \<Rightarrow> Inl (SysExit azimuth_fhw_msg)))"

definition optional_site_list ::
  "pydict \<Rightarrow> string \<Rightarrow> nat \<Rightarrow> string \<Rightarrow> exn + string list option" where
  "optional_site_list inp k n msg =
     optional inp k (\<lambda>v.
       if length (str_list ''{}'' v) \<noteq> n then Inl (SysExit msg) else Inr (str_list ''{}'' v))"

definition spectrum_parameters ::
  "'f pyenv \<Rightarrow> pydict \<Rightarrow> string list \<Rightarrow> nat \<Rightarrow>
   exn + ('f list \<times> ('f list \<times> string list \<times> string list \<times> 'f list) \<times> string \<times> string \<times> 'f \<times>
          string list \<times> string list \<times> 'f option \<times> 'f option \<times> ('f option \<times> int option) \<times>
          string list option \<times> string list option \<times> 'f option \<times> 'f option)" where
  "spectrum_parameters env inp intensity_measures n_sites =
     bindE (float_array env inp ''[]'' ''target_periods'') (\<lambda>target_periods.
     bindE (im_loop env inp intensity_measures) (\<lambda>ims.
     bindE (lookup inp ''corr_type'') (\<lambda>corr_type.
     bindE (lookup inp ''GMPE'') (\<lambda>gmpe_input.
     bindE (float_value env inp ''rake'') (\<lambda>rake.
     bindE (site_list inp ''Vs30'' n_sites
              ''Error: Vs30 must be an array of the same length of site_code'') (\<lambda>vs30_input.
     bindE (site_list inp ''vs30Type'' n_sites
              ''Error: vs30Type must be an array of the same length of site_code'') (\<lambda>vs30type.
     bindE (optional inp ''hypo_depth'' (convert (py_float env))) (\<lambda>hypo_depth.
     bindE (optional inp ''dip'' (convert (py_float env))) (\<lambda>dip.
     bindE (azimuth_fhw env inp) (\<lambda>az.
     bindE (optional_site_list inp ''z2pt5'' n_sites
              ''Error: z2pt5 must be an array of the same length of site_code'') (\<lambda>z2pt5.
     bindE (optional_site_list inp ''z1pt0'' n_sites
              ''Error: z1pt0 must be an array of the same length of site_code'') (\<lambda>z1pt0.
     bindE (optional inp ''upper_sd'' (convert (py_float env))) (\<lambda>upper_sd.
     bindE (optional inp ''lower_sd'' (convert (py_float env))) (\<lambda>lower_sd.
     Inr (target_periods, ims, corr_type, gmpe_input, rake, vs30_input, vs30type,
          hypo_depth, dip, az, z2pt5, z1pt0, upper_sd, lower_sd)))))))))))))))"

subsection \<open>Database parameters for screening recordings (lines 327 to 389)\<close>

text \<open>
  \<open>maxsf\<close>, \<open>radius_dist\<close> and \<open>radius_mag\<close> are either one float or one float for
  each probability of exceedance: \<open>Scalar\<close> is a Python float, \<open>Seq\<close> a numpy array.
\<close>

datatype 'f per_poe = Scalar 'f | Seq "'f list"

definition same_size_msg :: "string \<Rightarrow> string" where
  "same_size_msg k = ''Error: '' @ k @ '' must be of the same size of probability_of_exceedance''"

text \<open>
  Lines 351 to 383, once for each of the three keys: the list is read in the
  handler of the ValueError of \<^verbatim>\<open>float\<close>; a missing key is not caught.
\<close>

definition float_or_array ::
  "'f pyenv \<Rightarrow> pydict \<Rightarrow> string \<Rightarrow> nat \<Rightarrow> exn + 'f per_poe" where
  "float_or_array env inp k n_poe =
     bindE (lookup inp k) (\<lambda>v.
     case py_float env v of
       Some x \<Rightarrow> Inr (Scalar x)
     | None \<Rightarrow>
         bindE (convert_all (np_float env) (str_list ''{}'' v)) (\<lambda>xs.
         if n_poe \<noteq> length xs then Inl (SysExit (same_size_msg k)) else Inr (Seq xs)))"

definition database_parameters ::
  "'f pyenv \<Rightarrow> pydict \<Rightarrow> nat \<Rightarrow>
   exn + (string \<times> string list \<times> 'f list option \<times> string list option \<times>
          'f per_poe \<times> 'f per_poe \<times> 'f per_poe \<times> 'f list)" where
  "database_parameters env inp n_poe =
     bindE (lookup inp ''database_path'') (\<lambda>database_path.
     bindE (lookup inp ''allowed_database'') (\<lambda>dbs.
     bindE (optional inp ''allowedRecs_Vs30''
              (\<lambda>v. convert_all (np_float env) (str_list ''[]'' v))) (\<lambda>allowed_recs_vs30.
     bindE (optional inp ''allowedEC8code'' (\<lambda>v. Inr (str_list ''{}'' v))) (\<lambda>allowed_ec8_code.
     bindE (float_or_array env inp ''maxsf'' n_poe) (\<lambda>maxsf_input.
     bindE (float_or_array env inp ''radius_dist'' n_poe) (\<lambda>radius_dist_input.
     bindE (float_or_array env inp ''radius_mag'' n_poe) (\<lambda>radius_mag_input.
     bindE (float_array env inp ''[]'' ''allowed_depth'') (\<lambda>allowed_depth.
     Inr (database_path, str_list ''{}'' dbs, allowed_recs_vs30, allowed_ec8_code,
          maxsf_input, radius_dist_input, radius_mag_input, allowed_depth)))))))))"

subsection \<open>Selection parameters and folders (lines 391 to 416)\<close>

definition selection_parameters ::
  "'f pyenv \<Rightarrow> pydict \<Rightarrow>
   exn + (int \<times> int \<times> int \<times> 'f list \<times> int \<times> 'f \<times> string \<times> string \<times> string)" where
  "selection_parameters env inp =
     bindE (int_value env inp ''nGM'') (\<lambda>n_gm.
     bindE (int_value env inp ''random_seed'') (\<lambda>random_seed.
     bindE (int_value env inp ''nTrials'') (\<lambda>n_trials.
     bindE (float_array env inp ''{}'' ''weights'') (\<lambda>weights.
     bindE (int_value env inp ''nLoop'') (\<lambda>n_loop.
     bindE (float_value env inp ''penalty'') (\<lambda>penalty.
     bindE (lookup inp ''path_NGA_folder'') (\<lambda>path_nga_folder.
     bindE (lookup inp ''path_ESM_folder'') (\<lambda>path_esm_folder.
     bindE (lookup inp ''output_folder'') (\<lambda>output_folder.
     Inr (n_gm, random_seed, n_trials, weights, n_loop, penalty, path_nga_folder,
          path_esm_folder, output_folder))))))))))"

subsection \<open>The values returned\<close>

record 'f input_data =
  intensity_measures :: "string list"
  site_code :: "int list"
  rlz_code :: "int list"
  path_results_classical :: string
  path_results_disagg :: string
  num_disagg :: int
  num_classical :: int
  probability_of_exceedance_num :: "int list"
  probability_of_exceedance :: "string list"
  investigation_time :: 'f
  target_periods :: "'f list"
  tstar :: "'f list"
  im_type :: "string list"
  im_type_lbl :: "string list"
  avg_periods :: "'f list"
  corr_type :: string
  gmpe_input :: string
  rake :: 'f
  vs30_input :: "string list"
  vs30type :: "string list"
  hypo_depth :: "'f option"
  dip :: "'f option"
  azimuth :: "'f option"
  fhw :: "int option"
  z2pt5 :: "string list option"
  z1pt0 :: "string list option"
  upper_sd :: "'f option"
  lower_sd :: "'f option"
  database_path :: string
  allowed_database :: "string list"
  allowed_recs_vs30 :: "'f list option"
  allowed_ec8_code :: "string list option"
  maxsf_input :: "'f per_poe"
  radius_dist_input :: "'f per_poe"
  radius_mag_input :: "'f per_poe"
  allowed_depth :: "'f list"
  n_gm :: int
  random_seed :: int
  n_trials :: int
  weights :: "'f list"
  n_loop :: int
  penalty :: 'f
  path_nga_folder :: string
  path_esm_folder :: string
  output_folder :: string

text \<open>The messages of the checks of the lists given for each site.\<close>

definition site_msgs :: "string set" where
  "site_msgs =
     {''Error: Vs30 must be an array of the same length of site_code'',
      ''Error: vs30Type must be an array of the same length of site_code'',
      ''Error: z2pt5 must be an array of the same length of site_code'',
      ''Error: z1pt0 must be an array of the same length of site_code''}"

definition extract_input_parameters :: "'f pyenv \<Rightarrow> pydict \<Rightarrow> exn + 'f input_data" where
  "extract_input_parameters env inp =
     bindE (hazard_parameters env inp)
       (\<lambda>(ims, sites, rlzs, prc, prd, nd, nc, poe_num, poe, it).
     bindE (spectrum_parameters env inp ims (length sites))
       (\<lambda>(tp, (ts, imt, iml, avg), ct, gm, rk, vs, vst, hd, dp, (az, hw), z25, z10, usd, lsd).
     bindE (database_parameters env inp (length poe_num))
       (\<lambda>(dbp, dbs, arv, aec, msf, rdi, rmi, ad).
     bindE (selection_parameters env inp)
       (\<lambda>(ngm, seed, ntr, ws, nl, pen, nga, esm, out).
     Inr \<lparr> intensity_measures = ims, site_code = sites, rlz_code = rlzs,
           path_results_classical = prc, path_results_disagg = prd,
           num_disagg = nd, num_classical = nc,
           probability_of_exceedance_num = poe_num, probability_of_exceedance = poe,
           investigation_time = it, target_periods = tp, tstar = ts, im_type = imt,
           im_type_lbl = iml, avg_periods = avg, corr_type = ct, gmpe_input = gm,
           rake = rk, vs30_input = vs, vs30type = vst, hypo_depth = hd, dip = dp,
           azimuth = az, fhw = hw, z2pt5 = z25, z1pt0 = z10, upper_sd = usd,
           lower_sd = lsd, database_path = dbp, allowed_database = dbs,
           allowed_recs_vs30 = arv, allowed_ec8_code = aec, maxsf_input = msf,
           radius_dist_input = rdi, radius_mag_input = rmi, allowed_depth = ad,
           n_gm = ngm, random_seed = seed, n_trials = ntr, weights = ws, n_loop = nl,
           penalty = pen, path_nga_folder = nga, path_esm_folder = esm,
           output_folder = out \<rparr>))))"

definition read_input_data :: "'f pyenv \<Rightarrow> string list \<Rightarrow> exn + 'f input_data" where
  "read_input_data env fileini = extract_input_parameters env (read_lines fileini)"

subsection \<open>An instance of the conversions\<close>

text \<open>
  The conversions on plain decimal numerals (an optional sign, digits, and for a
  float an optional point with digits on at least one side), with the floats
  taken as rationals. Python accepts more (blanks, exponents, \<^verbatim>\<open>inf\<close>); the
  examples below use plain numerals and strings that Python rejects as well.
\<close>

fun digits_val :: "string \<Rightarrow> nat \<Rightarrow> nat option" where
  "digits_val [] acc = Some acc"
| "digits_val (c # cs) acc =
     (if 48 \<le> (of_char c :: nat) \<and> (of_char c :: nat) \<le> 57
      then digits_val cs (10 * acc + (of_char c - 48)) else None)"

definition plain_nat :: "string \<Rightarrow> nat option" where
  "plain_nat s = (if s = [] then None else digits_val s 0)"

definition is_sign :: "string \<Rightarrow> bool" where
  "is_sign s = (s \<noteq> [] \<and> (hd s = CHR ''-'' \<or> hd s = CHR ''+''))"

definition plain_int :: "string \<Rightarrow> int option" where
  "plain_int s =
     (if is_sign s
      then map_option (\<lambda>n. if hd s = CHR ''-'' then - int n else int n) (plain_nat (tl s))
      else map_option int (plain_nat s))"

definition plain_unsigned :: "string \<Rightarrow> rat option" where
  "plain_unsigned s =
     (case split_first CHR ''.'' s of (ip, fp) \<Rightarrow>
        if ip = [] \<and> fp = [] then None
        else (case (digits_val ip 0, digits_val fp 0) of
                (Some a, Some b) \<Rightarrow> Some (of_nat a + of_nat b / 10 ^ length fp)
              | _ \<Rightarrow> None))"

definition plain_float :: "string \<Rightarrow> rat option" where
  "plain_float s =
     (if is_sign s
      then map_option (\<lambda>x. if hd s = CHR ''-'' then - x else x) (plain_unsigned (tl s))
      else plain_unsigned s)"

definition plain_env :: "rat pyenv" where
  "plain_env = \<lparr> py_float = plain_float, py_int = plain_int,
                 np_float = plain_float, np_int = plain_int, fzero = 0 \<rparr>"

text \<open>
  An input file in the layout of the example of the docstring of
  \<^verbatim>\<open>read_input_data\<close>, with two sites, two levels and three intensity measures,
  and the values it is read to.
\<close>

definition mini_ini :: "string list" where
  "mini_ini =
    [''[hazard parameters]'',
     ''intensity_measures={AvgSA,SA(0.5),PGA}'',
     ''site_code={0,1}'',
     ''rlz_code={0,0}'',
     ''probability_of_exceedance_num={2,3}'',
     ''probability_of_exceedance={0.1,0.02}'',
     ''path_results_classical=cl'',
     ''path_results_disagg=di'',
     ''num_disagg=107'',
     ''num_classical=108'',
     ''investigation_time=50'',
     ''target_periods=[0.1,1]'',
     ''corr_type=akkar'',
     ''GMPE=AkkarBommer2010'',
     ''avg_periods=[0.2,1.0]'',
     ''rake=0.'',
     ''Vs30={300,600}'',
     ''vs30Type={inferred,inferred}'',
     ''azimuth=50'',
     ''database_path=db.csv'',
     ''allowed_database={ESM}'',
     ''allowed_depth=[0,30]'',
     ''radius_dist=50'',
     ''radius_mag={0.50,0.25}'',
     ''maxsf={3.0,5.0}'',
     ''nGM=2'',
     ''nTrials = 10'',
     ''weights={0.6,0.3,0.1}'',
     ''nLoop=10'',
     ''penalty=10'',
     ''random_seed=333'',
     ''path_NGA_folder=/nga'',
     ''path_ESM_folder=/esm'',
     ''output_folder=out'']"

definition mini_data :: "rat input_data" where
  "mini_data =
     \<lparr> intensity_measures = [''AvgSA'', ''SA(0.5)'', ''PGA''], site_code = [0, 1],
       rlz_code = [0, 0], path_results_classical = ''cl'', path_results_disagg = ''di'',
       num_disagg = 107, num_classical = 108, probability_of_exceedance_num = [2, 3],
       probability_of_exceedance = [''0.1'', ''0.02''], investigation_time = 50,
       target_periods = [1 / 10, 1], tstar = [0, 1 / 2, 0],
       im_type = [''AvgSA'', ''SA'', ''PGA''], im_type_lbl = [''AvgSa'', ''Sa(T)'', ''PGA''],
       avg_periods = [1 / 5, 1], corr_type = ''akkar'', gmpe_input = ''AkkarBommer2010'',
       rake = 0, vs30_input = [''300'', ''600''], vs30type = [''inferred'', ''inferred''],
       hypo_depth = None, dip = None, azimuth = Some 50, fhw = None, z2pt5 = None,
       z1pt0 = None, upper_sd = None, lower_sd = None, database_path = ''db.csv'',
       allowed_database = [''ESM''], allowed_recs_vs30 = None, allowed_ec8_code = None,
       maxsf_input = Seq [3, 5], radius_dist_input = Scalar 50,
       radius_mag_input = Seq [1 / 2, 1 / 4], allowed_depth = [0, 30], n_gm = 2,
       random_seed = 333, n_trials = 10, weights = [3 / 5, 3 / 10, 1 / 10], n_loop = 10,
       penalty = 10, path_nga_folder = ''/nga'', path_esm_folder = ''/esm'',
       output_folder = ''out'' \<rparr>"



definition short_poe_ini :: "string list" where
  "short_poe_ini = mini_ini @ [''probability_of_exceedance={0.1}'']"

definition long_maxsf_ini :: "string list" where
  "long_maxsf_ini = mini_ini @ [''maxsf={3.0,5.0,7.0}'']"

definition sa_ini :: "string list" where
  "sa_ini = mini_ini @ [''intensity_measures={SA}'']"


section \<open>The selection loop\<close>

text \<open>
  The values that \<^verbatim>\<open>selection_module\<close> hands to the functions it calls and gets
  back from them. A numpy array is a \<open>VList\<close>.
\<close>

datatype 'f val =
    VNone
  | VBool bool
  | VInt int
  | VFlt 'f
  | VStr string
  | VList "'f val list"

definition vopt :: "('a \<Rightarrow> 'f val) \<Rightarrow> 'a option \<Rightarrow> 'f val" where
  "vopt f x = (case x of None \<Rightarrow> VNone | Some y \<Rightarrow> f y)"

definition vflts :: "'f list \<Rightarrow> 'f val" where
  "vflts xs = VList (map VFlt xs)"

definition vstrs :: "string list \<Rightarrow> 'f val" where
  "vstrs xs = VList (map VStr xs)"

text \<open>\<^verbatim>\<open>xs[i]\<close> for a list index produced by \<^verbatim>\<open>np.arange\<close>, which is never negative.\<close>

definition index :: "'a list \<Rightarrow> nat \<Rightarrow> exn + 'a" where
  "index xs i = (if i < length xs then Inr (xs ! i) else Inl IndexError)"

text \<open>
  \<^verbatim>\<open>v[i]\<close> on values: a negative index counts from the end. What cannot be
  indexed gives \<open>TypeError\<close> (numpy reports some of these cases as IndexError; no
  statement below depends on which).
\<close>

definition py_index :: "'a list \<Rightarrow> int \<Rightarrow> exn + 'a" where
  "py_index xs i =
     (if 0 \<le> i \<and> i < int (length xs) then Inr (xs ! nat i)
      else if i < 0 \<and> 0 \<le> int (length xs) + i then Inr (xs ! nat (int (length xs) + i))
      else Inl IndexError)"

fun getitem :: "'f val \<Rightarrow> 'f val \<Rightarrow> exn + 'f val" where
  "getitem (VList xs) (VInt i) = py_index xs i"
| "getitem (VStr s) (VInt i) = bindE (py_index s i) (\<lambda>c. Inr (VStr [c]))"
| "getitem v i = Inl TypeError"

fun iterate :: "'f val \<Rightarrow> exn + 'f val list" where
  "iterate (VList xs) = Inr xs"
| "iterate (VStr s) = Inr (map (\<lambda>c. VStr [c]) s)"
| "iterate v = Inl TypeError"

fun getitems :: "'f val \<Rightarrow> 'f val list \<Rightarrow> exn + 'f val list" where
  "getitems v [] = Inr []"
| "getitems v (i # js) =
     bindE (getitem v i) (\<lambda>x. bindE (getitems v js) (\<lambda>xs. Inr (x # xs)))"

text \<open>
  The functions \<^verbatim>\<open>selection_module\<close> imports and calls are not among the modelled
  files; they are parameters. Each takes its positional arguments and the state
  of the world outside the program (files, the random number generator), and
  returns its result or the exception it raises, with the new state of the world.
\<close>

type_synonym ('w, 'a) extern = "'w \<Rightarrow> (exn + 'a) \<times> 'w"

record ('f, 'w) externs =
  compute_conditioning_value :: "'f val list \<Rightarrow> ('w, 'f val \<times> 'f val \<times> 'f val) extern"
  inizialize_gmm ::
    "'f val list \<Rightarrow> ('w, 'f val \<times> 'f val \<times> 'f val \<times> 'f val \<times> 'f val \<times> 'f val) extern"
  screen_database ::
    "'f val list \<Rightarrow>
     ('w, 'f val \<times> 'f val \<times> 'f val \<times> 'f val \<times> 'f val \<times> 'f val \<times> 'f val \<times>
          'f val \<times> 'f val \<times> 'f val \<times> 'f val \<times> 'f val \<times> 'f val \<times> 'f val) extern"
  compute_cs :: "'f val list \<Rightarrow> ('w, 'f val \<times> 'f val \<times> 'f val) extern"
  simulate_spectra :: "'f val list \<Rightarrow> ('w, 'f val) extern"
  find_ground_motion ::
    "'f val list \<Rightarrow> ('w, 'f val \<times> 'f val \<times> 'f val \<times> 'f val \<times> 'f val \<times> 'f val) extern"
  optimize_ground_motion :: "'f val list \<Rightarrow> ('w, 'f val \<times> 'f val \<times> 'f val) extern"
  path_exists :: "string \<Rightarrow> 'w \<Rightarrow> bool"
  makedirs :: "'f val list \<Rightarrow> ('w, unit) extern"
  plot_final_selection :: "'f val list \<Rightarrow> ('w, unit) extern"
  create_output_files :: "'f val list \<Rightarrow> ('w, unit) extern"

datatype callee =
    Compute_conditioning_value
  | Inizialize_gmm
  | Screen_database
  | Compute_cs
  | Simulate_spectra
  | Find_ground_motion
  | Optimize_ground_motion
  | Makedirs
  | Plot_final_selection
  | Create_output_files

text \<open>
  What a run does, in order: a line printed, or a call with its arguments and
  the exception it raised, if any.
\<close>

datatype 'f event = Print string | Call callee "'f val list" "exn option"

text \<open>
  The state of the loop: the two variables that an iteration reads before it
  writes them (the counter \<open>ind\<close> and \<open>vs30\<close>), the world, and the events so far.
  Every other local variable is assigned in an iteration before it is read there.
\<close>

record ('f, 'w) pstate =
  ind :: int
  vs30 :: "'f val"
  world :: 'w
  events :: "'f event list"

definition bindS ::
  "('s \<Rightarrow> (exn + 'a) \<times> 's) \<Rightarrow> ('a \<Rightarrow> 's \<Rightarrow> (exn + 'b) \<times> 's) \<Rightarrow> 's \<Rightarrow> (exn + 'b) \<times> 's" where
  "bindS m f s = (case m s of (Inl e, s') \<Rightarrow> (Inl e, s') | (Inr x, s') \<Rightarrow> f x s')"

definition liftE :: "exn + 'a \<Rightarrow> 's \<Rightarrow> (exn + 'a) \<times> 's" where
  "liftE r s = (r, s)"

fun forS :: "('a \<Rightarrow> 's \<Rightarrow> (exn + unit) \<times> 's) \<Rightarrow> 'a list \<Rightarrow> 's \<Rightarrow> (exn + unit) \<times> 's" where
  "forS f [] s = (Inr (), s)"
| "forS f (x # xs) s = bindS (f x) (\<lambda>_. forS f xs) s"

definition outcome :: "exn + 'a \<Rightarrow> exn option" where
  "outcome r = (case r of Inl e \<Rightarrow> Some e | Inr _ \<Rightarrow> None)"

definition call ::
  "callee \<Rightarrow> ('f val list \<Rightarrow> ('w, 'a) extern) \<Rightarrow> 'f val list \<Rightarrow>
   ('f, 'w) pstate \<Rightarrow> (exn + 'a) \<times> ('f, 'w) pstate" where
  "call c f args s =
     (case f args (world s) of
        (r, w) \<Rightarrow> (r, s\<lparr>world := w, events := events s @ [Call c args (outcome r)]\<rparr>))"

definition print :: "string \<Rightarrow> ('f, 'w) pstate \<Rightarrow> (exn + unit) \<times> ('f, 'w) pstate" where
  "print msg s = (Inr (), s\<lparr>events := events s @ [Print msg]\<rparr>)"

definition case_name :: "string \<Rightarrow> int \<Rightarrow> int \<Rightarrow> string" where
  "case_name im site poe = im @ ''-site_'' @ str_int site @ ''-poe-'' @ str_int poe"

definition n_cases :: "'f input_data \<Rightarrow> nat" where
  "n_cases a =
     length (site_code a) * length (probability_of_exceedance_num a) * length (intensity_measures a)"

text \<open>Lines 96 to 103: the line printed for a Case, and the counter.\<close>

definition announce :: "'f input_data \<Rightarrow> string \<Rightarrow> ('f, 'w) pstate \<Rightarrow> (exn + unit) \<times> ('f, 'w) pstate" where
  "announce a name s =
     (Inr (),
      s\<lparr>events := events s @
           [Print (''Processing '' @ name @ '' Case: '' @ str_int (ind s) @ ''/'' @
                   str_nat (n_cases a))],
        ind := ind s + 1\<rparr>)"

text \<open>Lines 114 to 117: the call reads the variable \<open>vs30\<close> and assigns the fifth result to it.\<close>

definition call_inizialize_gmm ::
  "('f, 'w) externs \<Rightarrow> 'f input_data \<Rightarrow> nat \<Rightarrow> 'f val \<Rightarrow> 'f val \<Rightarrow>
   ('f, 'w) pstate \<Rightarrow> (exn + 'f val \<times> 'f val \<times> 'f val \<times> 'f val \<times> 'f val) \<times> ('f, 'w) pstate" where
  "call_inizialize_gmm ext a ii rjb mag s =
     (case call Inizialize_gmm (inizialize_gmm ext)
             [VInt (int ii), VStr (gmpe_input a), rjb, mag, vopt VFlt (hypo_depth a),
              vopt VFlt (dip a), VFlt (rake a), vopt VFlt (upper_sd a), vopt VFlt (lower_sd a),
              vopt VFlt (azimuth a), vopt VInt (fhw a), vstrs (vs30type a), vs30 s,
              vopt vstrs (z2pt5 a), vopt vstrs (z1pt0 a)] s of
        (Inl e, s') \<Rightarrow> (Inl e, s')
      | (Inr (bgmpe, sctx, rctx, dctx, v, rrup), s') \<Rightarrow>
          (Inr (bgmpe, sctx, rctx, dctx, rrup), s'\<lparr>vs30 := v\<rparr>))"

text \<open>Lines 160 to 163.\<close>

definition make_folder ::
  "('f, 'w) externs \<Rightarrow> string \<Rightarrow> ('f, 'w) pstate \<Rightarrow> (exn + unit) \<times> ('f, 'w) pstate" where
  "make_folder ext folder s =
     (if \<not> path_exists ext folder (world s) then call Makedirs (makedirs ext) [VStr folder] s
      else (Inr (), s))"

text \<open>
  Lines 96 to 179, the body of the innermost loop, for site index \<open>ii\<close>, level
  index \<open>jj\<close> and intensity measure index \<open>im\<close>.
\<close>

definition run_case ::
  "('f, 'w) externs \<Rightarrow> 'f input_data \<Rightarrow> nat \<Rightarrow> int \<Rightarrow> int \<Rightarrow> nat \<Rightarrow> int \<Rightarrow>
   'f val \<Rightarrow> 'f val \<Rightarrow> 'f val \<Rightarrow> nat \<Rightarrow> ('f, 'w) pstate \<Rightarrow> (exn + unit) \<times> ('f, 'w) pstate" where
  "run_case ext a ii site rlz jj poe maxsf radius_dist radius_mag im =
     bindS (announce a (case_name (intensity_measures a ! im) site poe)) (\<lambda>_.
     bindS (liftE (index (probability_of_exceedance a) jj)) (\<lambda>poe_value.
     bindS (call Compute_conditioning_value (compute_conditioning_value ext)
              [VInt rlz, VStr (intensity_measures a ! im), VInt site, VInt poe,
               VInt (num_disagg a), VStr poe_value, VInt (num_classical a),
               VStr (path_results_disagg a), VFlt (investigation_time a),
               VStr (path_results_classical a)])
       (\<lambda>(im_star, rjb, mag).
     bindS (call_inizialize_gmm ext a ii rjb mag)
       (\<lambda>(bgmpe, sctx, rctx, dctx, rrup).
     bindS (\<lambda>s. call Screen_database (screen_database ext)
              [VStr (database_path a), vstrs (allowed_database a),
               vopt vflts (allowed_recs_vs30 a), radius_dist, radius_mag, rjb, mag,
               vopt vstrs (allowed_ec8_code a), vflts (target_periods a), VInt (n_gm a),
               vflts (allowed_depth a), vs30 s] s)
       (\<lambda>(sa_known, ind_per, tgt_per, n_big, allowed_index, event_id, station_code, source,
          record_sequence_number_nga, event_mw, event_mag, acc_distance, station_vs30,
          station_ec8).
     bindS (liftE (index (im_type a) im)) (\<lambda>im_type_im.
     bindS (liftE (index (tstar a) im)) (\<lambda>tstar_im.
     bindS (call Compute_cs (compute_cs ext)
              [tgt_per, bgmpe, sctx, rctx, dctx, VStr im_type_im, VFlt tstar_im, rrup, mag,
               vflts (avg_periods a), VStr (corr_type a), im_star, VStr (gmpe_input a)])
       (\<lambda>(mean_req, cov_req, stdevs).
     bindS (call Simulate_spectra (simulate_spectra ext)
              [VInt (random_seed a), VInt (n_trials a), mean_req, cov_req, stdevs,
               VInt (n_gm a), vflts (weights a)])
       (\<lambda>simulated_spectra.
     bindS (liftE (index (tstar a) im)) (\<lambda>tstar_im.
     bindS (call Find_ground_motion (find_ground_motion ext)
              [tgt_per, VFlt tstar_im, vflts (avg_periods a), VStr (intensity_measures a ! im),
               VInt (n_gm a), sa_known, ind_per, mean_req, n_big, simulated_spectra, maxsf])
       (\<lambda>(sample_small, sample_big, id_sel, ln_sa1, rec_id, im_scale_fac).
     bindS (call Optimize_ground_motion (optimize_ground_motion ext)
              [VInt (n_loop a), VInt (n_gm a), sample_small, n_big, id_sel, ln_sa1, maxsf,
               sample_big, tgt_per, mean_req, stdevs, vflts (weights a), VFlt (penalty a),
               rec_id, im_scale_fac])
       (\<lambda>(final_records, final_scale_factors, sample_small).
     bindS (make_folder ext
              (output_folder a @ ''/'' @ case_name (intensity_measures a ! im) site poe)) (\<lambda>_.
     bindS (liftE (index (im_type_lbl a) im)) (\<lambda>im_type_lbl_im.
     bindS (call Plot_final_selection (plot_final_selection ext)
              [VStr (case_name (intensity_measures a ! im) site poe), VStr im_type_lbl_im,
               VInt (n_gm a), tgt_per, sample_small, mean_req, stdevs,
               VStr (output_folder a)]) (\<lambda>_.
     bindS (liftE (bindE (iterate final_records) (getitems allowed_index))) (\<lambda>rec_idx.
     bindS (liftE (getitem rjb (VInt 0))) (\<lambda>rjb0.
     call Create_output_files (create_output_files ext)
       [VStr (output_folder a), VStr (case_name (intensity_measures a ! im) site poe),
        im_star, mag, rjb0, VInt (n_gm a), VList rec_idx, source, event_id, station_code,
        event_mw, acc_distance, station_vs30, station_ec8, final_scale_factors, tgt_per,
        mean_req, stdevs, record_sequence_number_nga, event_mag])))))))))))))))))"

text \<open>Lines 80 to 91: \<^verbatim>\<open>hasattr(x, '__len__')\<close> holds of the array and not of the float.\<close>

definition at_level :: "'f per_poe \<Rightarrow> nat \<Rightarrow> exn + 'f val" where
  "at_level x jj =
     (case x of
        Seq xs \<Rightarrow> bindE (index xs jj) (\<lambda>v. Inr (VFlt v))
      | Scalar v \<Rightarrow> Inr (VFlt v))"

text \<open>Lines 76 to 179, the body of the loop over the levels.\<close>

definition run_level ::
  "('f, 'w) externs \<Rightarrow> 'f input_data \<Rightarrow> nat \<Rightarrow> int \<Rightarrow> int \<Rightarrow> nat \<Rightarrow>
   ('f, 'w) pstate \<Rightarrow> (exn + unit) \<times> ('f, 'w) pstate" where
  "run_level ext a ii site rlz jj =
     bindS (liftE (at_level (maxsf_input a) jj)) (\<lambda>maxsf.
     bindS (liftE (at_level (radius_dist_input a) jj)) (\<lambda>radius_dist.
     bindS (liftE (at_level (radius_mag_input a) jj)) (\<lambda>radius_mag.
     forS (run_case ext a ii site rlz jj (probability_of_exceedance_num a ! jj)
             maxsf radius_dist radius_mag)
       [0 ..< length (intensity_measures a)])))"

text \<open>Lines 69 to 179, the body of the loop over the sites.\<close>

definition run_site ::
  "('f, 'w) externs \<Rightarrow> 'f input_data \<Rightarrow> nat \<Rightarrow>
   ('f, 'w) pstate \<Rightarrow> (exn + unit) \<times> ('f, 'w) pstate" where
  "run_site ext a ii =
     bindS (liftE (index (rlz_code a) ii)) (\<lambda>rlz.
     forS (run_level ext a ii (site_code a ! ii) rlz)
       [0 ..< length (probability_of_exceedance_num a)])"

text \<open>
  \<^verbatim>\<open>selection_module\<close>, called with the values \<^verbatim>\<open>read_input_data\<close> returns (all
  but the two accelerogram folders, in the same order), so that its parameter
  \<open>vs30\<close> holds the list \<open>vs30_input\<close>.
\<close>

definition selection_module ::
  "('f, 'w) externs \<Rightarrow> 'f input_data \<Rightarrow> 'w \<Rightarrow> (exn + unit) \<times> ('f, 'w) pstate" where
  "selection_module ext a w =
     bindS (print ''Inputs loaded, starting selection....'')
       (\<lambda>_. forS (run_site ext a) [0 ..< length (site_code a)])
       \<lparr> ind = 1, vs30 = vstrs (vs30_input a), world = w, events = [] \<rparr>"

subsection \<open>Instances of the called functions, for the examples\<close>

text \<open>
  The world of the examples is the list of the folders created so far. In
  \<open>demo_externs\<close> every call succeeds and \<^verbatim>\<open>inizialize_gmm\<close> returns the \<open>vs30\<close>
  it was given.
\<close>

definition demo_externs :: "(rat, string list) externs" where
  "demo_externs =
     \<lparr> compute_conditioning_value = (\<lambda>args w. (Inr (VFlt (1 / 5), VList [VFlt 10], VFlt 6), w)),
       inizialize_gmm = (\<lambda>args w.
         (Inr (VStr ''bgmpe'', VStr ''sctx'', VStr ''rctx'', VStr ''dctx'', args ! 12, VFlt 12), w)),
       screen_database = (\<lambda>args w.
         (Inr (VStr ''sa_known'', VStr ''ind_per'', args ! 8, VInt 3,
               VList [VInt 7, VInt 8, VInt 9], VNone, VNone, VNone, VNone, VNone, VNone,
               VNone, VNone, VNone), w)),
       compute_cs = (\<lambda>args w. (Inr (VStr ''mean_req'', VStr ''cov_req'', VStr ''stdevs''), w)),
       simulate_spectra = (\<lambda>args w. (Inr (VStr ''simulated_spectra''), w)),
       find_ground_motion = (\<lambda>args w.
         (Inr (VStr ''sample_small'', VStr ''sample_big'', VNone, VNone, VNone, VNone), w)),
       optimize_ground_motion = (\<lambda>args w.
         (Inr (VList [VInt 0, VInt 2], VList [VFlt 1, VFlt 2], VStr ''sample_small''), w)),
       path_exists = (\<lambda>folder w. folder \<in> set w),
       makedirs = (\<lambda>args w. (Inr (), (case args of [VStr folder] \<Rightarrow> folder # w | _ \<Rightarrow> w))),
       plot_final_selection = (\<lambda>args w. (Inr (), w)),
       create_output_files = (\<lambda>args w. (Inr (), w)) \<rparr>"

text \<open>
  In \<open>site_externs\<close>, \<^verbatim>\<open>inizialize_gmm\<close> returns as \<open>vs30\<close> the number at position
  \<open>index\<close> of the list of strings it is given, and raises when it is given
  anything else.
\<close>

definition site_vs30 :: "rat val list \<Rightarrow> exn + rat val" where
  "site_vs30 args =
     (case (args ! 12, args ! 0) of
        (VList xs, VInt i) \<Rightarrow>
          bindE (py_index xs i) (\<lambda>x.
            case x of VStr s \<Rightarrow> bindE (convert plain_float s) (\<lambda>v. Inr (VFlt v))
                    | _ \<Rightarrow> Inl TypeError)
      | _ \<Rightarrow> Inl TypeError)"

definition site_externs :: "(rat, string list) externs" where
  "site_externs =
     demo_externs \<lparr> inizialize_gmm := (\<lambda>args w.
       (bindE (site_vs30 args) (\<lambda>v.
          Inr (VStr ''bgmpe'', VStr ''sctx'', VStr ''rctx'', VStr ''dctx'', v, VFlt 12)), w)) \<rparr>"


text \<open>The values of \<open>mini_ini\<close> without its first intensity measure.\<close>

definition sa_first_data :: "rat input_data" where
  "sa_first_data =
     mini_data \<lparr> intensity_measures := [''SA(0.5)'', ''PGA''], tstar := [1 / 2, 0],
                 im_type := [''SA'', ''PGA''], im_type_lbl := [''Sa(T)'', ''PGA''] \<rparr>"

subsection \<open>What a run is observed to do\<close>

text \<open>The seven stages of the docstring of \<^verbatim>\<open>selection_module\<close>, in its order.\<close>

definition pipeline_stages :: "callee list" where
  "pipeline_stages =
     [Compute_conditioning_value, Inizialize_gmm, Screen_database, Compute_cs,
      Simulate_spectra, Find_ground_motion, Optimize_ground_motion]"

text \<open>The index triples of the three nested loops, in the order the loops visit them.\<close>

definition cases_of :: "'f input_data \<Rightarrow> (nat \<times> nat \<times> nat) list" where
  "cases_of a =
     concat (map (\<lambda>ii. concat (map (\<lambda>jj. map (\<lambda>im. (ii, jj, im))
       [0 ..< length (intensity_measures a)])
       [0 ..< length (probability_of_exceedance_num a)]))
       [0 ..< length (site_code a)])"

text \<open>The value of \<open>maxsf\<close>, \<open>radius_dist\<close> or \<open>radius_mag\<close> for the level with index \<open>jj\<close>.\<close>

definition level_value :: "'f per_poe \<Rightarrow> nat \<Rightarrow> 'f val" where
  "level_value x jj = (case x of Seq xs \<Rightarrow> VFlt (xs ! jj) | Scalar v \<Rightarrow> VFlt v)"

text \<open>The body of the innermost loop with the values the outer loops give it.\<close>

definition this_case ::
  "('f, 'w) externs \<Rightarrow> 'f input_data \<Rightarrow> nat \<Rightarrow> nat \<Rightarrow> nat \<Rightarrow>
   ('f, 'w) pstate \<Rightarrow> (exn + unit) \<times> ('f, 'w) pstate" where
  "this_case ext a ii jj im =
     run_case ext a ii (site_code a ! ii) (rlz_code a ! ii) jj
       (probability_of_exceedance_num a ! jj)
       (level_value (maxsf_input a) jj) (level_value (radius_dist_input a) jj)
       (level_value (radius_mag_input a) jj) im"

text \<open>The state in which the loop over the sites starts.\<close>

definition started :: "'f input_data \<Rightarrow> 'w \<Rightarrow> ('f, 'w) pstate" where
  "started a w =
     \<lparr> ind = 1, vs30 = vstrs (vs30_input a), world = w,
       events = [Print ''Inputs loaded, starting selection....''] \<rparr>"

text \<open>The exception an event ended with; events without one are \<open>clean\<close>.\<close>

fun raised :: "'f event \<Rightarrow> exn option" where
  "raised (Print msg) = None"
| "raised (Call c args r) = r"

definition clean :: "'f event list \<Rightarrow> bool" where
  "clean evs \<longleftrightarrow> (\<forall>ev \<in> set evs. raised ev = None)"

text \<open>
  \<open>seen \<phi> evs\<close> collects what \<open>\<phi>\<close> reads off each event: \<open>on_call c p\<close> reads
  \<open>p args\<close> off every call of \<open>c\<close>, \<open>stage_of\<close> the name of every call of a stage;
  \<open>calls_to c evs\<close> is the argument lists of the calls of \<open>c\<close>, in order.
\<close>

definition on_call :: "callee \<Rightarrow> ('f val list \<Rightarrow> 'b) \<Rightarrow> 'f event \<Rightarrow> 'b list" where
  "on_call c p ev =
     (case ev of Print msg \<Rightarrow> [] | Call c' args r \<Rightarrow> if c' = c then [p args] else [])"

definition stage_of :: "'f event \<Rightarrow> callee list" where
  "stage_of ev =
     (case ev of Print msg \<Rightarrow> []
      | Call c args r \<Rightarrow> if c \<in> set pipeline_stages then [c] else [])"

definition seen :: "('f event \<Rightarrow> 'b list) \<Rightarrow> 'f event list \<Rightarrow> 'b list" where
  "seen \<phi> evs = concat (map \<phi> evs)"

definition calls_to :: "callee \<Rightarrow> 'f event list \<Rightarrow> 'f val list list" where
  "calls_to c evs = seen (on_call c (\<lambda>args. args)) evs"

definition calls_only :: "('f event \<Rightarrow> 'b list) \<Rightarrow> bool" where
  "calls_only \<phi> \<longleftrightarrow>
     (\<forall>msg. \<phi> (Print msg) = []) \<and> (\<forall>args r. \<phi> (Call Makedirs args r) = [])"

text \<open>
  \<open>emits m \<phi> ys\<close>: from every state, what \<open>\<phi>\<close> reads off the events \<open>m\<close> adds is a
  prefix of \<open>ys\<close>, and all of \<open>ys\<close> when \<open>m\<close> returns.
\<close>

definition emits ::
  "(('f, 'w) pstate \<Rightarrow> (exn + 'a) \<times> ('f, 'w) pstate) \<Rightarrow> ('f event \<Rightarrow> 'b list) \<Rightarrow>
   'b list \<Rightarrow> bool" where
  "emits m \<phi> ys \<longleftrightarrow>
     (\<forall>s. \<exists>new. events (snd (m s)) = events s @ new \<and> prefix (seen \<phi> new) ys \<and>
                 (\<not> isl (fst (m s)) \<longrightarrow> seen \<phi> new = ys))"

text \<open>
  \<open>propagates m\<close>: from every state, the events \<open>m\<close> adds are clean, except that
  when \<open>m\<close> ends with an exception the last of them may be the call that raised
  that exception.
\<close>

definition ends_ok :: "exn option \<Rightarrow> 'f event list \<Rightarrow> bool" where
  "ends_ok r new \<longleftrightarrow>
     (case r of
        None \<Rightarrow> clean new
      | Some e \<Rightarrow> clean new \<or> (\<exists>pre ev. new = pre @ [ev] \<and> clean pre \<and> raised ev = Some e))"


text \<open>The lists are long enough for every index the loops use.\<close>

definition indexable :: "'f input_data \<Rightarrow> bool" where
  "indexable a \<longleftrightarrow>
     length (site_code a) \<le> length (rlz_code a) \<and>
     length (probability_of_exceedance_num a) \<le> length (probability_of_exceedance a) \<and>
     length (intensity_measures a) \<le> length (im_type a) \<and>
     length (intensity_measures a) \<le> length (tstar a) \<and>
     length (intensity_measures a) \<le> length (im_type_lbl a) \<and>
     (\<forall>x \<in> {maxsf_input a, radius_dist_input a, radius_mag_input a}.
        case x of Seq xs \<Rightarrow> length (probability_of_exceedance_num a) \<le> length xs
                | Scalar v \<Rightarrow> True)"

subsection \<open>The random number generator\<close>



text \<open>Two states of the loop that differ at most in the state of the generator.\<close>

definition same_but_generator ::
  "('f, 'g \<times> 'e) pstate \<Rightarrow> ('f, 'g \<times> 'e) pstate \<Rightarrow> bool" where
  "same_but_generator s t \<longleftrightarrow>
     ind s = ind t \<and> vs30 s = vs30 t \<and> events s = events t \<and> snd (world s) = snd (world t)"



section \<open>Scaling the selected accelerograms\<close>

text \<open>
  What \<^verbatim>\<open>scale_acc\<close> uses and does not define: \<open>to_int\<close> is \<^verbatim>\<open>int(nga[i])\<close>
  (\<open>None\<close> for a ValueError), \<open>fmul\<close> the product of two floats, \<open>fmt_line t a\<close>
  the text \<^verbatim>\<open>"{:10.3f} {:15.10f}\n".format(t, a)\<close>; \<open>create_nga_acc\<close> and
  \<open>create_esm_acc\<close> read a record from the accelerogram folders, which
  \<^verbatim>\<open>scale_acc\<close> does not write to; \<open>can_open\<close> tells whether a file can be opened
  for writing.
\<close>

type_synonym 'f acc = "'f list \<times> 'f list \<times> 'f list \<times> 'f list \<times> int \<times> int"

record ('f, 'n) acc_env =
  to_int :: "'n \<Rightarrow> int option"
  fmul :: "'f \<Rightarrow> 'f \<Rightarrow> 'f"
  fmt_line :: "'f \<Rightarrow> 'f \<Rightarrow> string"
  create_nga_acc :: "int \<Rightarrow> string \<Rightarrow> exn + 'f acc"
  create_esm_acc :: "string \<Rightarrow> string \<Rightarrow> string \<Rightarrow> nat \<Rightarrow> exn + 'f acc"
  can_open :: "string \<Rightarrow> bool"

text \<open>
  The files written: the text of each file under its name. Below, \<open>out_dir\<close> and
  \<open>ngm\<close> stand for the parameters \<^verbatim>\<open>output_folder\<close> and \<^verbatim>\<open>n_gm\<close> of \<^verbatim>\<open>scale_acc\<close>.
\<close>

type_synonym files = "string \<rightharpoonup> string"

text \<open>Lines 43 to 58: the record with index \<open>i\<close>, empty when its source is neither database.\<close>

definition read_acc ::
  "('f, 'n) acc_env \<Rightarrow> 'n list \<Rightarrow> string \<Rightarrow> string \<Rightarrow> string list \<Rightarrow> string list \<Rightarrow>
   string list \<Rightarrow> nat \<Rightarrow> exn + 'f acc" where
  "read_acc env nga path_nga path_esm source event station i =
     bindE (index source i) (\<lambda>src.
     if src = ''NGA-West2'' then
       bindE (index nga i) (\<lambda>n.
       bindE (convert (to_int env) n) (\<lambda>val. create_nga_acc env val path_nga))
     else if src = ''ESM'' then
       bindE (index event i) (\<lambda>ev.
       bindE (index station i) (\<lambda>st.
       create_esm_acc env (path_esm @ ''/'' @ ev @ ''-'' @ st) ev st i))
     else Inr ([], [], [], [], 0, 0))"

definition out_file :: "string \<Rightarrow> string \<Rightarrow> nat \<Rightarrow> string \<Rightarrow> string" where
  "out_file out_dir name i ending =
     out_dir @ ''/'' @ name @ ''/GMR_time_scaled_acc_'' @ str_int (int i + 1) @ ending"

text \<open>One \<^verbatim>\<open>write\<close> of lines 70 and 71: the line for sample \<open>j\<close> is appended to the file.\<close>

definition write_sample ::
  "('f, 'n) acc_env \<Rightarrow> string \<Rightarrow> 'f list \<Rightarrow> 'f list \<Rightarrow> 'f list \<Rightarrow> nat \<Rightarrow> nat \<Rightarrow>
   files \<Rightarrow> (exn + unit) \<times> files" where
  "write_sample env fname time inp_acc sf i j fs =
     (case bindE (index time j) (\<lambda>t.
           bindE (index inp_acc j) (\<lambda>a.
           bindE (index sf i) (\<lambda>s. Inr (fmt_line env t (fmul env a s))))) of
        Inl e \<Rightarrow> (Inl e, fs)
      | Inr line \<Rightarrow>
          (Inr (), fs(fname \<mapsto> (case fs fname of None \<Rightarrow> line | Some text \<Rightarrow> text @ line))))"

text \<open>Lines 68 to 71: opening the file for writing empties it.\<close>

definition write_file ::
  "('f, 'n) acc_env \<Rightarrow> string \<Rightarrow> 'f list \<Rightarrow> 'f list \<Rightarrow> int \<Rightarrow> 'f list \<Rightarrow> nat \<Rightarrow>
   files \<Rightarrow> (exn + unit) \<times> files" where
  "write_file env fname time inp_acc npts sf i fs =
     (if \<not> can_open env fname then (Inl (Raised ''OSError''), fs)
      else forS (write_sample env fname time inp_acc sf i) [0 ..< nat npts] (fs(fname \<mapsto> [])))"

definition scale_one ::
  "('f, 'n) acc_env \<Rightarrow> 'n list \<Rightarrow> string \<Rightarrow> string \<Rightarrow> string list \<Rightarrow> string list \<Rightarrow>
   string list \<Rightarrow> string \<Rightarrow> string \<Rightarrow> 'f list \<Rightarrow> nat \<Rightarrow> files \<Rightarrow> (exn + unit) \<times> files" where
  "scale_one env nga path_nga path_esm source event station name out_dir sf i =
     bindS (liftE (read_acc env nga path_nga path_esm source event station i))
       (\<lambda>(time1, time2, inp_acc1, inp_acc2, npts1, npts2).
     bindS (write_file env (out_file out_dir name i ''_1.txt'') time1 inp_acc1 npts1 sf i)
       (\<lambda>_. write_file env (out_file out_dir name i ''_2.txt'') time2 inp_acc2 npts2 sf i))"

definition scale_acc ::
  "('f, 'n) acc_env \<Rightarrow> int \<Rightarrow> 'n list \<Rightarrow> string \<Rightarrow> string \<Rightarrow> string list \<Rightarrow> string list \<Rightarrow>
   string list \<Rightarrow> string \<Rightarrow> string \<Rightarrow> 'f list \<Rightarrow> files \<Rightarrow> (exn + unit) \<times> files" where
  "scale_acc env ngm nga path_nga path_esm source event station name out_dir sf =
     forS (scale_one env nga path_nga path_esm source event station name out_dir sf)
       [0 ..< nat ngm]"




section \<open>Properties of reading the input file\<close>

lemma bindE_Inr_iff: "bindE m f = Inr y \<longleftrightarrow> (\<exists>x. m = Inr x \<and> f x = Inr y)"
  by (cases m) (simp_all add: bindE_def)

lemma bindE_Inl_iff: "bindE m f = Inl e \<longleftrightarrow> m = Inl e \<or> (\<exists>x. m = Inr x \<and> f x = Inl e)"
  by (cases m) (simp_all add: bindE_def)

lemma bindE_simps [simp]: "bindE (Inl e) f = Inl e" "bindE (Inr x) f = f x"
  by (simp_all add: bindE_def)

lemma lookup_no_exit: "lookup inp k \<noteq> Inl (SysExit m)"
  by (simp add: lookup_def split: option.splits)

lemma convert_no_exit: "convert f s \<noteq> Inl (SysExit m)"
  by (simp add: convert_def split: option.splits)

lemma convert_all_no_exit: "convert_all f xs \<noteq> Inl (SysExit m)"
  by (induction xs) (simp_all add: bindE_Inl_iff convert_no_exit)

lemma int_array_no_exit: "int_array env inp k \<noteq> Inl (SysExit m)"
  by (simp add: int_array_def bindE_Inl_iff lookup_no_exit convert_all_no_exit)

lemma float_array_no_exit: "float_array env inp cs k \<noteq> Inl (SysExit m)"
  by (simp add: float_array_def bindE_Inl_iff lookup_no_exit convert_all_no_exit)

lemma int_value_no_exit: "int_value env inp k \<noteq> Inl (SysExit m)"
  by (simp add: int_value_def bindE_Inl_iff lookup_no_exit convert_no_exit)

lemma float_value_no_exit: "float_value env inp k \<noteq> Inl (SysExit m)"
  by (simp add: float_value_def bindE_Inl_iff lookup_no_exit convert_no_exit)

lemmas no_exit = lookup_no_exit convert_no_exit convert_all_no_exit int_array_no_exit
  float_array_no_exit int_value_no_exit float_value_no_exit

lemma optional_no_exit:
  "(\<And>v. f v \<noteq> Inl (SysExit m)) \<Longrightarrow> optional inp k f \<noteq> Inl (SysExit m)"
  by (simp add: optional_def bindE_Inl_iff split: option.splits)


lemma foldE_exit: "foldE f xs s = Inl e \<Longrightarrow> \<exists>x \<in> set xs. \<exists>s'. f x s' = Inl e"
  by (induction xs arbitrary: s) (auto simp add: bindE_Inl_iff)

text \<open>The messages each part can end with.\<close>

lemma hazard_parameters_exit:
  "hazard_parameters env inp = Inl (SysExit m) \<Longrightarrow> m = rlz_code_msg"
  by (auto simp add: hazard_parameters_def bindE_Inl_iff no_exit split: if_splits)

lemma im_step_exit:
  "im_step env inp ims i st = Inl (SysExit m) \<Longrightarrow> m = unsupported_msg (ims ! i)"
  by (auto simp add: im_step_def bindE_Inl_iff no_exit split: if_splits prod.splits)

lemma im_loop_exit:
  "im_loop env inp ims = Inl (SysExit m) \<Longrightarrow> \<exists>i < length ims. m = unsupported_msg (ims ! i)"
  unfolding im_loop_def by (drule foldE_exit) (auto dest: im_step_exit)

lemma site_list_exit: "site_list inp k n msg = Inl (SysExit m) \<Longrightarrow> m = msg"
  by (auto simp add: site_list_def bindE_Inl_iff no_exit split: if_splits)

lemma optional_site_list_exit: "optional_site_list inp k n msg = Inl (SysExit m) \<Longrightarrow> m = msg"
  by (auto simp add: optional_site_list_def optional_def bindE_Inl_iff
      split: if_splits option.splits)

lemma azimuth_fhw_exit:
  "azimuth_fhw env inp = Inl (SysExit m) \<Longrightarrow> m = fhw_value_msg \<or> m = azimuth_fhw_msg"
  by (auto simp add: azimuth_fhw_def bindE_Inl_iff no_exit split: if_splits option.splits)

lemma float_or_array_exit:
  "float_or_array env inp k n = Inl (SysExit m) \<Longrightarrow> m = same_size_msg k"
  by (auto simp add: float_or_array_def bindE_Inl_iff no_exit split: if_splits option.splits)

lemma spectrum_parameters_exit:
  assumes "spectrum_parameters env inp ims n = Inl (SysExit m)"
  shows "(\<exists>i < length ims. m = unsupported_msg (ims ! i)) \<or> m \<in> site_msgs \<or>
         azimuth_fhw env inp = Inl (SysExit m)"
  using assms unfolding spectrum_parameters_def site_msgs_def
  by (auto simp add: bindE_Inl_iff no_exit optional_no_exit
      dest!: im_loop_exit site_list_exit optional_site_list_exit)

lemma database_parameters_exit:
  assumes "database_parameters env inp n = Inl (SysExit m)"
  shows "m \<in> {same_size_msg ''maxsf'', same_size_msg ''radius_dist'', same_size_msg ''radius_mag''}"
  using assms unfolding database_parameters_def
  by (auto simp add: bindE_Inl_iff no_exit optional_no_exit dest!: float_or_array_exit)

lemma selection_parameters_no_exit: "selection_parameters env inp \<noteq> Inl (SysExit m)"
  unfolding selection_parameters_def by (simp add: bindE_Inl_iff no_exit)

lemma extract_exit:
  assumes "extract_input_parameters env inp = Inl (SysExit m)"
  shows "m = rlz_code_msg \<or> (\<exists>im. m = unsupported_msg im) \<or> m \<in> site_msgs \<or>
         azimuth_fhw env inp = Inl (SysExit m) \<or>
         m \<in> {same_size_msg ''maxsf'', same_size_msg ''radius_dist'', same_size_msg ''radius_mag''}"
  using assms unfolding extract_input_parameters_def
  by (auto simp add: bindE_Inl_iff selection_parameters_no_exit split: prod.splits
      dest!: hazard_parameters_exit spectrum_parameters_exit database_parameters_exit)

lemma extract_not_poe: "extract_input_parameters env inp \<noteq> Inl (SysExit poe_size_msg)"
proof
  assume "extract_input_parameters env inp = Inl (SysExit poe_size_msg)"
  from extract_exit [OF this] show False
    by (auto simp add: poe_size_msg_def rlz_code_msg_def unsupported_msg_def fhw_value_msg_def
        azimuth_fhw_msg_def same_size_msg_def site_msgs_def dest!: azimuth_fhw_exit)
qed

text \<open>What a returned record holds, in terms of the parts.\<close>

lemma extract_Inr:
  assumes "extract_input_parameters env inp = Inr r"
  shows "\<exists>prc prd nd nc it tp avg ct gm rk hd dp usd lsd dbp dbs arv aec ad ngm seed ntr ws nl pen nga esm out.
    hazard_parameters env inp =
      Inr (intensity_measures r, site_code r, rlz_code r, prc, prd, nd, nc,
           probability_of_exceedance_num r, probability_of_exceedance r, it) \<and>
    spectrum_parameters env inp (intensity_measures r) (length (site_code r)) =
      Inr (tp, (tstar r, im_type r, im_type_lbl r, avg), ct, gm, rk, vs30_input r, vs30type r,
           hd, dp, (azimuth r, fhw r), z2pt5 r, z1pt0 r, usd, lsd) \<and>
    database_parameters env inp (length (probability_of_exceedance_num r)) =
      Inr (dbp, dbs, arv, aec, maxsf_input r, radius_dist_input r, radius_mag_input r, ad) \<and>
    selection_parameters env inp = Inr (ngm, seed, ntr, ws, nl, pen, nga, esm, out)"
  using assms unfolding extract_input_parameters_def
  by (auto simp add: bindE_Inr_iff split: prod.splits)





lemma extract_per_poe:
  assumes "extract_input_parameters env inp = Inr r"
  shows "float_or_array env inp ''maxsf'' (length (probability_of_exceedance_num r)) =
           Inr (maxsf_input r)"
    and "float_or_array env inp ''radius_dist'' (length (probability_of_exceedance_num r)) =
           Inr (radius_dist_input r)"
    and "float_or_array env inp ''radius_mag'' (length (probability_of_exceedance_num r)) =
           Inr (radius_mag_input r)"
  using extract_Inr [OF assms]
  by (auto simp add: database_parameters_def bindE_Inr_iff)

lemma float_or_array_Seq:
  "float_or_array env inp k n = Inr (Seq xs) \<Longrightarrow> length xs = n"
  by (auto simp add: float_or_array_def bindE_Inr_iff split: option.splits if_splits)

lemma float_or_array_Scalar:
  "float_or_array env inp k n = Inr (Scalar x) \<Longrightarrow> \<exists>v. inp k = Some v \<and> py_float env v = Some x"
  by (auto simp add: float_or_array_def bindE_Inr_iff lookup_def split: option.splits if_splits)

lemma float_or_array_mismatch:
  "inp k = Some v \<Longrightarrow> py_float env v = None \<Longrightarrow>
   convert_all (np_float env) (str_list ''{}'' v) = Inr xs \<Longrightarrow> length xs \<noteq> n \<Longrightarrow>
   float_or_array env inp k n = Inl (SysExit (same_size_msg k))"
  by (auto simp add: float_or_array_def lookup_def)







lemma forS_ok: "(\<And>x s. x \<in> set xs \<Longrightarrow> fst (f x s) = Inr ()) \<Longrightarrow> fst (forS f xs s) = Inr ()"
proof (induction xs arbitrary: s)
  case Nil
  show ?case by simp
next
  case (Cons x xs)
  then have "fst (f x s) = Inr ()" by simp
  then obtain s1 where "f x s = (Inr (), s1)" by (cases "f x s") simp
  with Cons show ?case by (simp add: bindS_def)
qed

section \<open>Examples of reading\<close>

lemma read_mini: "read_input_data plain_env mini_ini = Inr mini_data"
  by code_simp



lemma read_short_poe:
  "read_input_data plain_env short_poe_ini = Inr (mini_data\<lparr>probability_of_exceedance := [''0.1'']\<rparr>)"
  by code_simp


text \<open>
  C9. The check of the two lists of probabilities of exceedance compares a length
  with itself: whatever the file holds, \<open>read_input_data\<close> never ends with the
  message of that check.
\<close>

theorem poe_sizes_never_compared:
  "read_input_data env fileini \<noteq> Inl (SysExit poe_size_msg)"
  unfolding read_input_data_def by (rule extract_not_poe)

theorem poe_sizes_never_compared_witness:
  "read_input_data plain_env short_poe_ini \<noteq> Inl (SysExit poe_size_msg) \<and>
   read_input_data plain_env short_poe_ini =
     Inr (mini_data\<lparr>probability_of_exceedance := [''0.1'']\<rparr>) \<and>
   length (probability_of_exceedance_num (mini_data\<lparr>probability_of_exceedance := [''0.1'']\<rparr>)) = 2 \<and>
   length (probability_of_exceedance (mini_data\<lparr>probability_of_exceedance := [''0.1'']\<rparr>)) = 1"
  using poe_sizes_never_compared [of plain_env short_poe_ini] read_short_poe
  by (simp add: mini_data_def)







lemma sa_entry: "read_lines sa_ini ''intensity_measures'' = Some ''{SA}''"
  by code_simp




lemma seen_simps [simp]: "seen \<phi> [] = []" "seen \<phi> (ev # evs) = \<phi> ev @ seen \<phi> evs"
  "seen \<phi> (xs @ zs) = seen \<phi> xs @ seen \<phi> zs"
  by (simp_all add: seen_def)

lemma emits_eq: "emits m \<phi> xs \<Longrightarrow> xs = ys \<Longrightarrow> emits m \<phi> ys"
  by simp

lemma emits_liftE: "emits (liftE r) \<phi> []"
  by (simp add: emits_def liftE_def)

lemma emits_print: "calls_only \<phi> \<Longrightarrow> emits (print msg) \<phi> []"
  by (simp add: emits_def print_def calls_only_def)

lemma emits_announce: "calls_only \<phi> \<Longrightarrow> emits (announce a name) \<phi> []"
  by (simp add: emits_def announce_def calls_only_def)

lemma emits_call:
  "(\<And>r. \<phi> (Call c args r) = ys) \<Longrightarrow> emits (call c f args) \<phi> ys"
  by (simp add: emits_def call_def split: prod.splits)

lemma emits_call_state:
  "(\<And>r v. \<phi> (Call c (args v) r) = ys) \<Longrightarrow> emits (\<lambda>s. call c f (args (vs30 s)) s) \<phi> ys"
  by (simp add: emits_def call_def split: prod.splits)

lemma emits_call_inizialize_gmm:
  "(\<And>r args. \<phi> (Call Inizialize_gmm args r) = ys) \<Longrightarrow> emits (call_inizialize_gmm ext a ii rjb mag) \<phi> ys"
  by (auto simp add: emits_def call_inizialize_gmm_def call_def split: prod.splits sum.splits)

lemma emits_make_folder: "calls_only \<phi> \<Longrightarrow> emits (make_folder ext folder) \<phi> []"
  by (simp add: emits_def make_folder_def call_def calls_only_def split: prod.splits)

lemma emits_bindS:
  assumes "emits m \<phi> xs" and "\<And>x. emits (f x) \<phi> ys"
  shows "emits (bindS m f) \<phi> (xs @ ys)"
  unfolding emits_def
proof
  fix s
  from assms(1) obtain new1 where
    1: "events (snd (m s)) = events s @ new1" "prefix (seen \<phi> new1) xs"
       "\<not> isl (fst (m s)) \<longrightarrow> seen \<phi> new1 = xs"
    unfolding emits_def by blast
  show "\<exists>new. events (snd (bindS m f s)) = events s @ new \<and> prefix (seen \<phi> new) (xs @ ys) \<and>
              (\<not> isl (fst (bindS m f s)) \<longrightarrow> seen \<phi> new = xs @ ys)"
  proof (cases "m s")
    case (Pair r s1)
    show ?thesis
    proof (cases r)
      case (Inl e)
      with Pair 1 show ?thesis
        by (auto simp add: bindS_def intro: prefix_order.trans)
    next
      case (Inr x)
      from assms(2) [of x] obtain new2 where
        2: "events (snd (f x s1)) = events s1 @ new2" "prefix (seen \<phi> new2) ys"
           "\<not> isl (fst (f x s1)) \<longrightarrow> seen \<phi> new2 = ys"
        unfolding emits_def by blast
      from Pair Inr 1 2 show ?thesis
        by (intro exI [of _ "new1 @ new2"]) (auto simp add: bindS_def)
    qed
  qed
qed

lemma emits_bind_liftE:
  assumes "\<And>x. r = Inr x \<Longrightarrow> emits (f x) \<phi> ys"
  shows "emits (bindS (liftE r) f) \<phi> ys"
proof (cases r)
  case (Inl e)
  then show ?thesis by (simp add: emits_def bindS_def liftE_def)
next
  case (Inr x)
  from assms [OF Inr] show ?thesis
    by (simp add: emits_def bindS_def liftE_def Inr)
qed

lemma emits_case_prod:
  "(\<And>a b. emits (f a b) \<phi> ys) \<Longrightarrow> emits (case x of (a, b) \<Rightarrow> f a b) \<phi> ys"
  by (cases x) simp

lemma emits_forS:
  assumes "\<And>x. x \<in> set xs \<Longrightarrow> emits (f x) \<phi> (g x)"
  shows "emits (forS f xs) \<phi> (concat (map g xs))"
  using assms
proof (induction xs)
  case Nil
  show ?case by (simp add: emits_def)
next
  case (Cons x xs)
  have "emits (bindS (f x) (\<lambda>_. forS f xs)) \<phi> (g x @ concat (map g xs))"
    by (rule emits_bindS) (simp_all add: Cons)
  moreover have "forS f (x # xs) = bindS (f x) (\<lambda>_. forS f xs)"
    by (rule ext) simp
  ultimately show ?case by simp
qed

lemmas emits_rules = emits_bind_liftE emits_bindS emits_case_prod emits_call emits_call_state
  emits_call_inizialize_gmm emits_make_folder emits_announce

lemma run_case_emits_key:
  "emits (run_case ext a ii site rlz jj poe maxsf rd rm im)
     (on_call Compute_conditioning_value (\<lambda>args. (args ! 2, args ! 3, args ! 1)))
     [(VInt site, VInt poe, VStr (intensity_measures a ! im))]"
  unfolding run_case_def
  apply (rule emits_eq [where xs = "[] @ [(VInt site, VInt poe, VStr (intensity_measures a ! im))]
       @ [] @ [] @ [] @ [] @ [] @ [] @ [] @ [] @ []"])
   apply (rule emits_rules | simp add: on_call_def calls_only_def)+
  done


lemma run_case_emits_stages:
  "emits (run_case ext a ii site rlz jj poe maxsf rd rm im) stage_of pipeline_stages"
  unfolding run_case_def
  apply (rule emits_eq [where xs = "[] @ [Compute_conditioning_value] @ [Inizialize_gmm] @
       [Screen_database] @ [Compute_cs] @ [Simulate_spectra] @ [Find_ground_motion] @
       [Optimize_ground_motion] @ [] @ [] @ []"])
   apply (rule emits_rules | simp add: stage_of_def pipeline_stages_def calls_only_def)+
  done

lemma run_case_emits_screen:
  "emits (run_case ext a ii site rlz jj poe maxsf rd rm im)
     (on_call Screen_database (\<lambda>args. (args ! 3, args ! 4))) [(rd, rm)]"
  unfolding run_case_def
  apply (rule emits_eq [where xs = "[] @ [] @ [] @ [(rd, rm)] @ [] @ [] @ [] @ [] @ [] @ [] @ []"])
   apply (rule emits_rules | simp add: on_call_def calls_only_def)+
  done

lemma run_case_emits_find:
  "emits (run_case ext a ii site rlz jj poe maxsf rd rm im)
     (on_call Find_ground_motion (\<lambda>args. args ! 10)) [maxsf]"
  unfolding run_case_def
  apply (rule emits_eq [where xs = "[] @ [] @ [] @ [] @ [] @ [] @ [maxsf] @ [] @ [] @ [] @ []"])
   apply (rule emits_rules | simp add: on_call_def calls_only_def)+
  done

lemma run_case_emits_optimize:
  "emits (run_case ext a ii site rlz jj poe maxsf rd rm im)
     (on_call Optimize_ground_motion (\<lambda>args. args ! 6)) [maxsf]"
  unfolding run_case_def
  apply (rule emits_eq [where xs = "[] @ [] @ [] @ [] @ [] @ [] @ [] @ [maxsf] @ [] @ [] @ []"])
   apply (rule emits_rules | simp add: on_call_def calls_only_def)+
  done


lemma index_Inr: "index xs i = Inr x \<Longrightarrow> x = xs ! i \<and> i < length xs"
  by (simp add: index_def split: if_splits)

lemma at_level_Inr: "at_level y jj = Inr v \<Longrightarrow> v = level_value y jj"
  by (auto simp add: at_level_def level_value_def bindE_Inr_iff dest: index_Inr split: per_poe.splits)

lemma concat_cases_level:
  "concat (map (\<lambda>(ii, jj, im). G ii jj im) (concat (map (\<lambda>jj. map (\<lambda>im. (ii, jj, im)) zs) ys))) =
   concat (map (\<lambda>jj. concat (map (\<lambda>im. G ii jj im) zs)) ys)"
  by (induction ys) (simp_all add: comp_def)

lemma concat_cases:
  "concat (map (\<lambda>(ii, jj, im). G ii jj im)
     (concat (map (\<lambda>ii. concat (map (\<lambda>jj. map (\<lambda>im. (ii, jj, im)) zs) ys)) xs))) =
   concat (map (\<lambda>ii. concat (map (\<lambda>jj. concat (map (\<lambda>im. G ii jj im) zs)) ys)) xs)"
  by (induction xs) (simp_all add: concat_cases_level)

lemma length_cases_of: "length (cases_of a) = n_cases a"
  by (simp add: cases_of_def n_cases_def length_concat comp_def sum_list_triv)

text \<open>From one Case to the whole run.\<close>

lemma run_level_emits:
  assumes "\<And>im. im < length (intensity_measures a) \<Longrightarrow>
     emits (run_case ext a ii site rlz jj (probability_of_exceedance_num a ! jj)
              (level_value (maxsf_input a) jj) (level_value (radius_dist_input a) jj)
              (level_value (radius_mag_input a) jj) im) \<phi> (G im)"
  shows "emits (run_level ext a ii site rlz jj) \<phi>
           (concat (map G [0 ..< length (intensity_measures a)]))"
  unfolding run_level_def
  apply (rule emits_bind_liftE)+
  apply (drule at_level_Inr)+
  apply (rule emits_forS)
  apply (simp add: assms)
  done

lemma run_site_emits:
  assumes "\<And>jj im. jj < length (probability_of_exceedance_num a) \<Longrightarrow>
     im < length (intensity_measures a) \<Longrightarrow>
     emits (run_case ext a ii (site_code a ! ii) (rlz_code a ! ii) jj
              (probability_of_exceedance_num a ! jj)
              (level_value (maxsf_input a) jj) (level_value (radius_dist_input a) jj)
              (level_value (radius_mag_input a) jj) im) \<phi> (G jj im)"
  shows "emits (run_site ext a ii) \<phi>
           (concat (map (\<lambda>jj. concat (map (G jj) [0 ..< length (intensity_measures a)]))
              [0 ..< length (probability_of_exceedance_num a)]))"
  unfolding run_site_def
  apply (rule emits_bind_liftE)
  apply (drule index_Inr)
  apply (rule emits_forS)
  apply (rule run_level_emits)
  apply (simp add: assms)
  done

lemma selection_module_emits:
  assumes "calls_only \<phi>"
    and "\<And>ii jj im. emits (this_case ext a ii jj im) \<phi> (G ii jj im)"
  shows "prefix (seen \<phi> (events (snd (selection_module ext a w))))
           (concat (map (\<lambda>(ii, jj, im). G ii jj im) (cases_of a))) \<and>
         (fst (selection_module ext a w) = Inr () \<longrightarrow>
          seen \<phi> (events (snd (selection_module ext a w))) =
            concat (map (\<lambda>(ii, jj, im). G ii jj im) (cases_of a)))"
proof -
  have "emits (bindS (print ''Inputs loaded, starting selection....'')
                (\<lambda>_. forS (run_site ext a) [0 ..< length (site_code a)])) \<phi>
          ([] @ concat (map (\<lambda>(ii, jj, im). G ii jj im) (cases_of a)))"
    unfolding cases_of_def concat_cases
    apply (rule emits_bindS)
     apply (rule emits_print [OF assms(1)])
    apply (rule emits_forS)
    apply (rule run_site_emits)
    apply (rule assms(2) [unfolded this_case_def])
    done
  then have "\<exists>new. events (snd (selection_module ext a w)) = [] @ new \<and>
      prefix (seen \<phi> new) (concat (map (\<lambda>(ii, jj, im). G ii jj im) (cases_of a))) \<and>
      (\<not> isl (fst (selection_module ext a w)) \<longrightarrow>
         seen \<phi> new = concat (map (\<lambda>(ii, jj, im). G ii jj im) (cases_of a)))"
    unfolding emits_def selection_module_def
    by (drule_tac x = "\<lparr> ind = 1, vs30 = vstrs (vs30_input a), world = w, events = [] \<rparr>" in spec)
       simp
  then show ?thesis
    by auto
qed



lemma map_calls_to: "map p (calls_to c evs) = seen (on_call c p) evs"
  by (induction evs) (auto simp add: calls_to_def on_call_def split: event.splits)

lemma calls_only_on_call: "c \<noteq> Makedirs \<Longrightarrow> calls_only (on_call c p)"
  by (simp add: calls_only_def on_call_def)

lemma calls_only_stage_of: "calls_only stage_of"
  by (simp add: calls_only_def stage_of_def pipeline_stages_def)

lemma concat_same: "concat (map (\<lambda>(ii, jj, im). ys) xs) = concat (replicate (length xs) ys)"
  by (induction xs) auto

section \<open>Exceptions in a run\<close>

lemma clean_simps [simp]: "clean []" "clean (ev # evs) \<longleftrightarrow> raised ev = None \<and> clean evs"
  "clean (xs @ ys) \<longleftrightarrow> clean xs \<and> clean ys"
  by (auto simp add: clean_def)

lemma outcome_simps [simp]: "outcome (Inl e) = Some e" "outcome (Inr x) = None"
  by (simp_all add: outcome_def)

lemma ends_ok_None [simp]: "ends_ok None new \<longleftrightarrow> clean new"
  by (simp add: ends_ok_def)






















section \<open>Runs with the instances of the called functions\<close>

lemma demo_externs_fields:
  "compute_conditioning_value demo_externs =
     (\<lambda>args w. (Inr (VFlt (1 / 5), VList [VFlt 10], VFlt 6), w))"
  "inizialize_gmm demo_externs = (\<lambda>args w.
     (Inr (VStr ''bgmpe'', VStr ''sctx'', VStr ''rctx'', VStr ''dctx'', args ! 12, VFlt 12), w))"
  "screen_database demo_externs = (\<lambda>args w.
     (Inr (VStr ''sa_known'', VStr ''ind_per'', args ! 8, VInt 3,
           VList [VInt 7, VInt 8, VInt 9], VNone, VNone, VNone, VNone, VNone, VNone,
           VNone, VNone, VNone), w))"
  "compute_cs demo_externs =
     (\<lambda>args w. (Inr (VStr ''mean_req'', VStr ''cov_req'', VStr ''stdevs''), w))"
  "simulate_spectra demo_externs = (\<lambda>args w. (Inr (VStr ''simulated_spectra''), w))"
  "find_ground_motion demo_externs = (\<lambda>args w.
     (Inr (VStr ''sample_small'', VStr ''sample_big'', VNone, VNone, VNone, VNone), w))"
  "optimize_ground_motion demo_externs = (\<lambda>args w.
     (Inr (VList [VInt 0, VInt 2], VList [VFlt 1, VFlt 2], VStr ''sample_small''), w))"
  "path_exists demo_externs = (\<lambda>folder w. folder \<in> set w)"
  "makedirs demo_externs =
     (\<lambda>args w. (Inr (), (case args of [VStr folder] \<Rightarrow> folder # w | _ \<Rightarrow> w)))"
  "plot_final_selection demo_externs = (\<lambda>args w. (Inr (), w))"
  "create_output_files demo_externs = (\<lambda>args w. (Inr (), w))"
  by (simp_all add: demo_externs_def)

lemmas step_defs = bindS_def liftE_def call_def call_inizialize_gmm_def make_folder_def
  announce_def index_def py_index_def

lemma demo_run_case_ok:
  assumes "jj < length (probability_of_exceedance a)" and "im < length (im_type a)"
    and "im < length (tstar a)" and "im < length (im_type_lbl a)"
  shows "fst (run_case demo_externs a ii site rlz jj poe maxsf rd rm im s) = Inr ()"
  using assms by (simp add: run_case_def step_defs demo_externs_fields)


text \<open>The loops, when every index is in range.\<close>

lemma at_level_indexable:
  assumes "indexable a" and "jj < length (probability_of_exceedance_num a)"
  shows "at_level (maxsf_input a) jj = Inr (level_value (maxsf_input a) jj)"
    and "at_level (radius_dist_input a) jj = Inr (level_value (radius_dist_input a) jj)"
    and "at_level (radius_mag_input a) jj = Inr (level_value (radius_mag_input a) jj)"
  using assms
  by (auto simp add: indexable_def at_level_def level_value_def index_def split: per_poe.splits)

lemma run_level_indexable:
  assumes "indexable a" and "jj < length (probability_of_exceedance_num a)"
  shows "run_level ext a ii (site_code a ! ii) (rlz_code a ! ii) jj =
           forS (this_case ext a ii jj) [0 ..< length (intensity_measures a)]"
proof -
  have "this_case ext a ii jj =
          run_case ext a ii (site_code a ! ii) (rlz_code a ! ii) jj
            (probability_of_exceedance_num a ! jj) (level_value (maxsf_input a) jj)
            (level_value (radius_dist_input a) jj) (level_value (radius_mag_input a) jj)"
    by (rule ext) (simp add: this_case_def)
  then show ?thesis
    by (intro ext) (simp add: run_level_def at_level_indexable [OF assms] bindS_def liftE_def)
qed

lemma forS_cong_set: "(\<And>x. x \<in> set xs \<Longrightarrow> f x = g x) \<Longrightarrow> forS f xs = forS g xs"
proof (induction xs)
  case Nil
  show ?case by (rule ext) simp
next
  case (Cons x xs)
  then have "f x = g x" "forS f xs = forS g xs" by simp_all
  then show ?case by (intro ext) (simp add: bindS_def)
qed

lemma run_site_indexable:
  assumes "indexable a" and "ii < length (site_code a)"
  shows "run_site ext a ii =
           forS (\<lambda>jj. forS (this_case ext a ii jj) [0 ..< length (intensity_measures a)])
             [0 ..< length (probability_of_exceedance_num a)]"
proof -
  from assms have "index (rlz_code a) ii = Inr (rlz_code a ! ii)"
    by (simp add: indexable_def index_def)
  then have "run_site ext a ii =
      forS (run_level ext a ii (site_code a ! ii) (rlz_code a ! ii))
        [0 ..< length (probability_of_exceedance_num a)]"
    by (intro ext) (simp add: run_site_def bindS_def liftE_def)
  also have "\<dots> = forS (\<lambda>jj. forS (this_case ext a ii jj) [0 ..< length (intensity_measures a)])
             [0 ..< length (probability_of_exceedance_num a)]"
    by (rule forS_cong_set) (simp add: run_level_indexable [OF assms(1)])
  finally show ?thesis .
qed

lemma selection_module_indexable:
  assumes "indexable a"
  shows "selection_module ext a w =
           forS (\<lambda>ii. forS (\<lambda>jj. forS (this_case ext a ii jj)
                 [0 ..< length (intensity_measures a)])
                 [0 ..< length (probability_of_exceedance_num a)])
             [0 ..< length (site_code a)] (started a w)"
proof -
  have "forS (run_site ext a) [0 ..< length (site_code a)] =
        forS (\<lambda>ii. forS (\<lambda>jj. forS (this_case ext a ii jj)
                 [0 ..< length (intensity_measures a)])
                 [0 ..< length (probability_of_exceedance_num a)])
             [0 ..< length (site_code a)]"
    by (rule forS_cong_set) (simp add: run_site_indexable [OF assms])
  then show ?thesis
    by (simp add: selection_module_def bindS_def print_def started_def)
qed

lemma forS_first_fails: "fst (f x s) = Inl e \<Longrightarrow> forS f (x # xs) s = f x s"
  by (cases "f x s") (simp add: bindS_def)

lemma forS_second_fails:
  assumes "fst (f x s) = Inr ()" and "fst (f y (snd (f x s))) = Inl e"
  shows "forS f (x # y # xs) s = f y (snd (f x s))"
proof -
  from assms(1) obtain s1 where 1: "f x s = (Inr (), s1)" by (cases "f x s") simp
  with assms(2) have "fst (f y s1) = Inl e" by simp
  then obtain s2 where "f y s1 = (Inl e, s2)" by (cases "f y s1") simp
  with 1 show ?thesis by (simp add: bindS_def)
qed

lemma upt_first: "0 < n \<Longrightarrow> [0 ..< n] = 0 # [1 ..< n]"
  by (simp add: upt_conv_Cons)

lemma upt_first_two: "2 \<le> n \<Longrightarrow> [0 ..< n] = 0 # Suc 0 # [2 ..< n]"
  by (simp add: upt_conv_Cons numeral_2_eq_2)

lemma demo_success:
  assumes "indexable a"
  shows "fst (selection_module demo_externs a w) = Inr ()"
  unfolding selection_module_indexable [OF assms]
proof (intro forS_ok)
  fix ii jj im and s :: "(rat, string list) pstate"
  assume "jj \<in> set [0 ..< length (probability_of_exceedance_num a)]"
    and "im \<in> set [0 ..< length (intensity_measures a)]"
  with assms show "fst (this_case demo_externs a ii jj im s) = Inr ()"
    unfolding this_case_def by (intro demo_run_case_ok) (simp_all add: indexable_def)
qed


lemma second_case_fails:
  assumes "indexable a" and "site_code a \<noteq> []" and "probability_of_exceedance_num a \<noteq> []"
    and "2 \<le> length (intensity_measures a)"
    and "fst (this_case ext a 0 0 0 (started a w)) = Inr ()"
    and "fst (this_case ext a 0 0 (Suc 0) (snd (this_case ext a 0 0 0 (started a w)))) = Inl e"
  shows "selection_module ext a w =
           this_case ext a 0 0 (Suc 0) (snd (this_case ext a 0 0 0 (started a w)))"
proof -
  let ?ims = "\<lambda>ii jj. forS (this_case ext a ii jj) [0 ..< length (intensity_measures a)]"
  let ?lvs = "\<lambda>ii. forS (?ims ii) [0 ..< length (probability_of_exceedance_num a)]"
  let ?s = "started a w"
  let ?end = "this_case ext a 0 0 (Suc 0) (snd (this_case ext a 0 0 0 ?s))"
  from assms(2,3,4) have u: "[0 ..< length (intensity_measures a)] =
        0 # Suc 0 # [2 ..< length (intensity_measures a)]"
      "[0 ..< length (probability_of_exceedance_num a)] =
        0 # [1 ..< length (probability_of_exceedance_num a)]"
      "[0 ..< length (site_code a)] = 0 # [1 ..< length (site_code a)]"
    by (simp_all add: upt_first upt_first_two)
  have 1: "?ims 0 0 ?s = ?end"
    unfolding u(1)
    by (rule forS_second_fails [of "this_case ext a 0 0" 0 ?s "Suc 0" e]) (rule assms(5), rule assms(6))
  have 2: "?lvs 0 ?s = ?end"
    unfolding u(2) using forS_first_fails [of "?ims 0" 0 ?s e] 1 assms(6) by simp
  have 3: "forS ?lvs [0 ..< length (site_code a)] ?s = ?end"
    unfolding u(3) using forS_first_fails [of ?lvs 0 ?s e] 2 assms(6) by simp
  then show ?thesis
    by (simp only: selection_module_indexable [OF assms(1)])
qed


section \<open>The Cases of a run\<close>

text \<open>
  C6. \<open>selection_module\<close> starts the pipeline once for each triple of a site, a
  level and an intensity measure, in the order of the three nested loops (sites
  outermost, then levels, then intensity measures): the calls of
  \<^verbatim>\<open>compute_conditioning_value\<close> are for a prefix of that list of triples, and for
  all of it when \<open>selection_module\<close> returns. Then the calls of the seven stages
  are those of \<open>n_cases\<close> Cases and no more.
\<close>

theorem one_pipeline_run_per_case:
  "prefix
     (map (\<lambda>args. (args ! 2, args ! 3, args ! 1))
        (calls_to Compute_conditioning_value (events (snd (selection_module ext a w)))))
     (map (\<lambda>(ii, jj, im). (VInt (site_code a ! ii), VInt (probability_of_exceedance_num a ! jj),
                            VStr (intensity_measures a ! im))) (cases_of a)) \<and>
   (fst (selection_module ext a w) = Inr () \<longrightarrow>
      map (\<lambda>args. (args ! 2, args ! 3, args ! 1))
        (calls_to Compute_conditioning_value (events (snd (selection_module ext a w)))) =
      map (\<lambda>(ii, jj, im). (VInt (site_code a ! ii), VInt (probability_of_exceedance_num a ! jj),
                            VStr (intensity_measures a ! im))) (cases_of a) \<and>
      seen stage_of (events (snd (selection_module ext a w))) =
        concat (replicate (n_cases a) pipeline_stages)) \<and>
   length (cases_of a) = n_cases a"
proof -
  let ?key = "\<lambda>ii jj im. [(VInt (site_code a ! ii), VInt (probability_of_exceedance_num a ! jj),
                            VStr (intensity_measures a ! im))]"
  have flat: "concat (map (\<lambda>(ii, jj, im). ?key ii jj im) xs) =
      map (\<lambda>(ii, jj, im). (VInt (site_code a ! ii), VInt (probability_of_exceedance_num a ! jj),
                            VStr (intensity_measures a ! im))) xs" for xs
    by (induction xs) auto
  have "emits (this_case ext a ii jj im)
          (on_call Compute_conditioning_value (\<lambda>args. (args ! 2, args ! 3, args ! 1)))
          (?key ii jj im)" for ii jj im
    unfolding this_case_def by (rule run_case_emits_key)
  from selection_module_emits [OF calls_only_on_call this, of w]
  have keys: "prefix
     (map (\<lambda>args. (args ! 2, args ! 3, args ! 1))
        (calls_to Compute_conditioning_value (events (snd (selection_module ext a w)))))
     (map (\<lambda>(ii, jj, im). (VInt (site_code a ! ii), VInt (probability_of_exceedance_num a ! jj),
                            VStr (intensity_measures a ! im))) (cases_of a))"
    "fst (selection_module ext a w) = Inr () \<longrightarrow>
      map (\<lambda>args. (args ! 2, args ! 3, args ! 1))
        (calls_to Compute_conditioning_value (events (snd (selection_module ext a w)))) =
      map (\<lambda>(ii, jj, im). (VInt (site_code a ! ii), VInt (probability_of_exceedance_num a ! jj),
                            VStr (intensity_measures a ! im))) (cases_of a)"
    by (simp_all add: map_calls_to flat)
  have "emits (this_case ext a ii jj im) stage_of pipeline_stages" for ii jj im
    unfolding this_case_def by (rule run_case_emits_stages)
  from selection_module_emits [OF calls_only_stage_of this, of w]
  have stages: "fst (selection_module ext a w) = Inr () \<longrightarrow>
      seen stage_of (events (snd (selection_module ext a w))) =
        concat (replicate (n_cases a) pipeline_stages)"
    by (simp add: concat_same length_cases_of)
  from keys stages show ?thesis
    by (simp add: length_cases_of)
qed

lemma mini_indexable: "indexable mini_data"
  by (simp add: indexable_def mini_data_def)

lemma mini_cases:
  "cases_of mini_data =
     [(0, 0, 0), (0, 0, 1), (0, 0, 2), (0, 1, 0), (0, 1, 1), (0, 1, 2),
      (1, 0, 0), (1, 0, 1), (1, 0, 2), (1, 1, 0), (1, 1, 1), (1, 1, 2)]"
  by (simp add: cases_of_def mini_data_def upt_conv_Cons)

theorem one_pipeline_run_per_case_witness:
  "fst (selection_module demo_externs mini_data []) = Inr () \<and>
   map (\<lambda>args. (args ! 2, args ! 3, args ! 1))
     (calls_to Compute_conditioning_value (events (snd (selection_module demo_externs mini_data [])))) =
   [(VInt 0, VInt 2, VStr ''AvgSA''), (VInt 0, VInt 2, VStr ''SA(0.5)''), (VInt 0, VInt 2, VStr ''PGA''),
    (VInt 0, VInt 3, VStr ''AvgSA''), (VInt 0, VInt 3, VStr ''SA(0.5)''), (VInt 0, VInt 3, VStr ''PGA''),
    (VInt 1, VInt 2, VStr ''AvgSA''), (VInt 1, VInt 2, VStr ''SA(0.5)''), (VInt 1, VInt 2, VStr ''PGA''),
    (VInt 1, VInt 3, VStr ''AvgSA''), (VInt 1, VInt 3, VStr ''SA(0.5)''), (VInt 1, VInt 3, VStr ''PGA'')] \<and>
   length (seen stage_of (events (snd (selection_module demo_externs mini_data [])))) = 84 \<and>
   n_cases mini_data = 12"
proof -
  have ok: "fst (selection_module demo_externs mini_data []) = Inr ()"
    by (rule demo_success [OF mini_indexable])
  have n: "n_cases mini_data = 12"
    by (simp add: n_cases_def mini_data_def)
  have fields: "site_code mini_data = [0, 1]" "probability_of_exceedance_num mini_data = [2, 3]"
    "intensity_measures mini_data = [''AvgSA'', ''SA(0.5)'', ''PGA'']"
    by (simp_all add: mini_data_def)
  from one_pipeline_run_per_case [of demo_externs mini_data "[]"] ok
  show ?thesis
    by (simp add: mini_cases n fields pipeline_stages_def length_concat sum_list_replicate)
qed


section \<open>The values for each level\<close>

lemma extract_poe_num:
  "extract_input_parameters env inp = Inr r \<Longrightarrow>
   int_array env inp ''probability_of_exceedance_num'' = Inr (probability_of_exceedance_num r)"
  by (drule extract_Inr) (auto simp add: hazard_parameters_def bindE_Inr_iff split: if_splits)

text \<open>
  C8. What \<open>read_input_data\<close> returns for \<open>maxsf\<close>, \<open>radius_dist\<close> and \<open>radius_mag\<close>
  is a float or an array with one element for each level: a file whose entry is
  a list of another length makes \<open>read_input_data\<close> end with \<^verbatim>\<open>sys.exit\<close>. When
  \<open>selection_module\<close> returns, the Case with level index \<open>jj\<close> has passed
  \<open>level_value x jj\<close> (the element \<open>jj\<close> of an array, the float itself otherwise)
  for \<open>radius_dist\<close> and \<open>radius_mag\<close> to \<^verbatim>\<open>screen_database\<close> and for \<open>maxsf\<close> to
  \<^verbatim>\<open>find_ground_motion\<close> and \<^verbatim>\<open>optimize_ground_motion\<close>.
\<close>

theorem level_values_applied:
  "(read_input_data env fileini = Inr a \<longrightarrow>
      (\<forall>x \<in> {maxsf_input a, radius_dist_input a, radius_mag_input a}.
         \<forall>xs. x = Seq xs \<longrightarrow> length xs = length (probability_of_exceedance_num a))) \<and>
   (k \<in> {''maxsf'', ''radius_dist'', ''radius_mag''} \<and>
    read_lines fileini k = Some v \<and> py_float env v = None \<and>
    convert_all (np_float env) (str_list ''{}'' v) = Inr xs \<and>
    int_array env (read_lines fileini) ''probability_of_exceedance_num'' = Inr ps \<and>
    length xs \<noteq> length ps \<longrightarrow>
      (\<exists>e. read_input_data env fileini = Inl e)) \<and>
   (fst (selection_module ext a w) = Inr () \<longrightarrow>
      map (\<lambda>args. (args ! 3, args ! 4))
        (calls_to Screen_database (events (snd (selection_module ext a w)))) =
      map (\<lambda>(ii, jj, im). (level_value (radius_dist_input a) jj,
                            level_value (radius_mag_input a) jj)) (cases_of a) \<and>
      map (\<lambda>args. args ! 10)
        (calls_to Find_ground_motion (events (snd (selection_module ext a w)))) =
      map (\<lambda>(ii, jj, im). level_value (maxsf_input a) jj) (cases_of a) \<and>
      map (\<lambda>args. args ! 6)
        (calls_to Optimize_ground_motion (events (snd (selection_module ext a w)))) =
      map (\<lambda>(ii, jj, im). level_value (maxsf_input a) jj) (cases_of a))"
proof (intro conjI impI)
  assume "read_input_data env fileini = Inr a"
  then have r: "extract_input_parameters env (read_lines fileini) = Inr a"
    by (simp add: read_input_data_def)
  from extract_per_poe [OF r]
  show "\<forall>x \<in> {maxsf_input a, radius_dist_input a, radius_mag_input a}.
         \<forall>xs. x = Seq xs \<longrightarrow> length xs = length (probability_of_exceedance_num a)"
    by (auto dest: float_or_array_Seq)
next
  assume h: "k \<in> {''maxsf'', ''radius_dist'', ''radius_mag''} \<and>
    read_lines fileini k = Some v \<and> py_float env v = None \<and>
    convert_all (np_float env) (str_list ''{}'' v) = Inr xs \<and>
    int_array env (read_lines fileini) ''probability_of_exceedance_num'' = Inr ps \<and>
    length xs \<noteq> length ps"
  show "\<exists>e. read_input_data env fileini = Inl e"
  proof (cases "read_input_data env fileini")
    case (Inl e)
    then show ?thesis by blast
  next
    case (Inr r)
    then have r: "extract_input_parameters env (read_lines fileini) = Inr r"
      by (simp add: read_input_data_def)
    from extract_poe_num [OF r] h have ps: "probability_of_exceedance_num r = ps"
      by simp
    from h have "float_or_array env (read_lines fileini) k (length ps) =
        Inl (SysExit (same_size_msg k))"
      by (intro float_or_array_mismatch) auto
    with extract_per_poe [OF r] ps h show ?thesis
      by auto
  qed
next
  assume ok: "fst (selection_module ext a w) = Inr ()"
  have flat: "concat (map (\<lambda>(ii, jj, im). [g jj]) zs) = map (\<lambda>(ii, jj, im). g jj) zs"
    for g :: "nat \<Rightarrow> 'z" and zs :: "(nat \<times> nat \<times> nat) list"
    by (induction zs) auto
  have "emits (this_case ext a ii jj im) (on_call Screen_database (\<lambda>args. (args ! 3, args ! 4)))
          [(level_value (radius_dist_input a) jj, level_value (radius_mag_input a) jj)]"
    for ii jj im
    unfolding this_case_def by (rule run_case_emits_screen)
  from selection_module_emits [OF calls_only_on_call this, of w] ok
  show "map (\<lambda>args. (args ! 3, args ! 4))
        (calls_to Screen_database (events (snd (selection_module ext a w)))) =
      map (\<lambda>(ii, jj, im). (level_value (radius_dist_input a) jj,
                            level_value (radius_mag_input a) jj)) (cases_of a)"
    by (simp add: map_calls_to flat)
  have "emits (this_case ext a ii jj im) (on_call Find_ground_motion (\<lambda>args. args ! 10))
          [level_value (maxsf_input a) jj]" for ii jj im
    unfolding this_case_def by (rule run_case_emits_find)
  from selection_module_emits [OF calls_only_on_call this, of w] ok
  show "map (\<lambda>args. args ! 10)
        (calls_to Find_ground_motion (events (snd (selection_module ext a w)))) =
      map (\<lambda>(ii, jj, im). level_value (maxsf_input a) jj) (cases_of a)"
    by (simp add: map_calls_to flat)
  have "emits (this_case ext a ii jj im) (on_call Optimize_ground_motion (\<lambda>args. args ! 6))
          [level_value (maxsf_input a) jj]" for ii jj im
    unfolding this_case_def by (rule run_case_emits_optimize)
  from selection_module_emits [OF calls_only_on_call this, of w] ok
  show "map (\<lambda>args. args ! 6)
        (calls_to Optimize_ground_motion (events (snd (selection_module ext a w)))) =
      map (\<lambda>(ii, jj, im). level_value (maxsf_input a) jj) (cases_of a)"
    by (simp add: map_calls_to flat)
qed

lemma long_maxsf_facts:
  "read_lines long_maxsf_ini ''maxsf'' = Some ''{3.0,5.0,7.0}'' \<and>
   py_float plain_env ''{3.0,5.0,7.0}'' = None \<and>
   convert_all (np_float plain_env) (str_list ''{}'' ''{3.0,5.0,7.0}'') = Inr [3, 5, 7] \<and>
   int_array plain_env (read_lines long_maxsf_ini) ''probability_of_exceedance_num'' = Inr [2, 3]"
  by code_simp

lemma read_long_maxsf:
  "read_input_data plain_env long_maxsf_ini = Inl (SysExit (same_size_msg ''maxsf''))"
  by code_simp

theorem level_values_applied_witness:
  "read_input_data plain_env mini_ini = Inr mini_data \<and>
   maxsf_input mini_data = Seq [3, 5] \<and> radius_dist_input mini_data = Scalar 50 \<and>
   radius_mag_input mini_data = Seq [1 / 2, 1 / 4] \<and>
   length (probability_of_exceedance_num mini_data) = 2 \<and>
   read_lines long_maxsf_ini ''maxsf'' = Some ''{3.0,5.0,7.0}'' \<and>
   read_input_data plain_env long_maxsf_ini = Inl (SysExit (same_size_msg ''maxsf'')) \<and>
   fst (selection_module demo_externs mini_data []) = Inr () \<and>
   map (\<lambda>args. (args ! 3, args ! 4))
     (calls_to Screen_database (events (snd (selection_module demo_externs mini_data [])))) =
   [(VFlt 50, VFlt (1 / 2)), (VFlt 50, VFlt (1 / 2)), (VFlt 50, VFlt (1 / 2)),
    (VFlt 50, VFlt (1 / 4)), (VFlt 50, VFlt (1 / 4)), (VFlt 50, VFlt (1 / 4)),
    (VFlt 50, VFlt (1 / 2)), (VFlt 50, VFlt (1 / 2)), (VFlt 50, VFlt (1 / 2)),
    (VFlt 50, VFlt (1 / 4)), (VFlt 50, VFlt (1 / 4)), (VFlt 50, VFlt (1 / 4))] \<and>
   map (\<lambda>args. args ! 10)
     (calls_to Find_ground_motion (events (snd (selection_module demo_externs mini_data [])))) =
   [VFlt 3, VFlt 3, VFlt 3, VFlt 5, VFlt 5, VFlt 5, VFlt 3, VFlt 3, VFlt 3, VFlt 5, VFlt 5, VFlt 5] \<and>
   map (\<lambda>args. args ! 6)
     (calls_to Optimize_ground_motion (events (snd (selection_module demo_externs mini_data [])))) =
   [VFlt 3, VFlt 3, VFlt 3, VFlt 5, VFlt 5, VFlt 5, VFlt 3, VFlt 3, VFlt 3, VFlt 5, VFlt 5, VFlt 5]"
proof -
  have ok: "fst (selection_module demo_externs mini_data []) = Inr ()"
    by (rule demo_success [OF mini_indexable])
  have fields: "maxsf_input mini_data = Seq [3, 5]" "radius_dist_input mini_data = Scalar 50"
    "radius_mag_input mini_data = Seq [1 / 2, 1 / 4]"
    "length (probability_of_exceedance_num mini_data) = 2"
    by (simp_all add: mini_data_def)
  from level_values_applied [of plain_env mini_ini mini_data "''maxsf''" "''{3.0,5.0,7.0}''"
      "[3, 5, 7]" "[2, 3]" demo_externs "[]"] ok
  have "map (\<lambda>args. (args ! 3, args ! 4))
        (calls_to Screen_database (events (snd (selection_module demo_externs mini_data [])))) =
      map (\<lambda>(ii, jj, im). (level_value (radius_dist_input mini_data) jj,
                            level_value (radius_mag_input mini_data) jj)) (cases_of mini_data) \<and>
      map (\<lambda>args. args ! 10)
        (calls_to Find_ground_motion (events (snd (selection_module demo_externs mini_data [])))) =
      map (\<lambda>(ii, jj, im). level_value (maxsf_input mini_data) jj) (cases_of mini_data) \<and>
      map (\<lambda>args. args ! 6)
        (calls_to Optimize_ground_motion (events (snd (selection_module demo_externs mini_data [])))) =
      map (\<lambda>(ii, jj, im). level_value (maxsf_input mini_data) jj) (cases_of mini_data)"
    by blast
  with ok read_mini long_maxsf_facts read_long_maxsf show ?thesis
    by (simp add: mini_cases fields level_value_def)
qed


section \<open>A failing Case\<close>




lemma mini_nonempty:
  "site_code mini_data \<noteq> []" "probability_of_exceedance_num mini_data \<noteq> []"
  "intensity_measures mini_data \<noteq> []" "2 \<le> length (intensity_measures mini_data)"
  "site_code mini_data ! 0 = 0" "0 < length (probability_of_exceedance mini_data)"
  by (simp_all add: mini_data_def)







section \<open>The variable vs30\<close>

lemma site_externs_fields:
  "compute_conditioning_value site_externs =
     (\<lambda>args w. (Inr (VFlt (1 / 5), VList [VFlt 10], VFlt 6), w))"
  "inizialize_gmm site_externs = (\<lambda>args w.
     (bindE (site_vs30 args) (\<lambda>v.
        Inr (VStr ''bgmpe'', VStr ''sctx'', VStr ''rctx'', VStr ''dctx'', v, VFlt 12)), w))"
  "screen_database site_externs = (\<lambda>args w.
     (Inr (VStr ''sa_known'', VStr ''ind_per'', args ! 8, VInt 3,
           VList [VInt 7, VInt 8, VInt 9], VNone, VNone, VNone, VNone, VNone, VNone,
           VNone, VNone, VNone), w))"
  "compute_cs site_externs =
     (\<lambda>args w. (Inr (VStr ''mean_req'', VStr ''cov_req'', VStr ''stdevs''), w))"
  "simulate_spectra site_externs = (\<lambda>args w. (Inr (VStr ''simulated_spectra''), w))"
  "find_ground_motion site_externs = (\<lambda>args w.
     (Inr (VStr ''sample_small'', VStr ''sample_big'', VNone, VNone, VNone, VNone), w))"
  "optimize_ground_motion site_externs = (\<lambda>args w.
     (Inr (VList [VInt 0, VInt 2], VList [VFlt 1, VFlt 2], VStr ''sample_small''), w))"
  "path_exists site_externs = (\<lambda>folder w. folder \<in> set w)"
  "makedirs site_externs =
     (\<lambda>args w. (Inr (), (case args of [VStr folder] \<Rightarrow> folder # w | _ \<Rightarrow> w)))"
  "plot_final_selection site_externs = (\<lambda>args w. (Inr (), w))"
  "create_output_files site_externs = (\<lambda>args w. (Inr (), w))"
  by (simp_all add: site_externs_def demo_externs_def)

text \<open>A Case of site 0 that finds the list of strings in \<open>vs30\<close>.\<close>

lemma site_case_with_list:
  assumes "vs30 s = VList (VStr t # rest)" and "plain_float t = Some v"
    and "jj < length (probability_of_exceedance a)" and "im < length (im_type a)"
    and "im < length (tstar a)" and "im < length (im_type_lbl a)"
  shows "fst (this_case site_externs a 0 jj im s) = Inr ()"
    and "vs30 (snd (this_case site_externs a 0 jj im s)) = VFlt v"
    and "seen (on_call Inizialize_gmm (\<lambda>args. args ! 12))
           (events (snd (this_case site_externs a 0 jj im s))) =
         seen (on_call Inizialize_gmm (\<lambda>args. args ! 12)) (events s) @ [VList (VStr t # rest)]"
    and "seen (on_call Screen_database (\<lambda>args. args ! 11))
           (events (snd (this_case site_externs a 0 jj im s))) =
         seen (on_call Screen_database (\<lambda>args. args ! 11)) (events s) @ [VFlt v]"
    and "seen (on_call Compute_conditioning_value (\<lambda>args. (args ! 2, args ! 3, args ! 1)))
           (events (snd (this_case site_externs a 0 jj im s))) =
         seen (on_call Compute_conditioning_value (\<lambda>args. (args ! 2, args ! 3, args ! 1)))
           (events s) @
         [(VInt (site_code a ! 0), VInt (probability_of_exceedance_num a ! jj),
           VStr (intensity_measures a ! im))]"
    and "seen stage_of (events (snd (this_case site_externs a 0 jj im s))) =
         seen stage_of (events s) @ pipeline_stages"
  using assms
  by (simp_all add: this_case_def run_case_def step_defs site_externs_fields site_vs30_def
      convert_def on_call_def stage_of_def pipeline_stages_def)

text \<open>A Case that finds a float in \<open>vs30\<close>.\<close>

lemma site_case_with_float:
  assumes "vs30 s = VFlt v" and "jj < length (probability_of_exceedance a)"
  shows "fst (this_case site_externs a ii jj im s) = Inl TypeError"
    and "seen (on_call Inizialize_gmm (\<lambda>args. args ! 12))
           (events (snd (this_case site_externs a ii jj im s))) =
         seen (on_call Inizialize_gmm (\<lambda>args. args ! 12)) (events s) @ [VFlt v]"
    and "seen (on_call Screen_database (\<lambda>args. args ! 11))
           (events (snd (this_case site_externs a ii jj im s))) =
         seen (on_call Screen_database (\<lambda>args. args ! 11)) (events s)"
    and "seen (on_call Compute_conditioning_value (\<lambda>args. (args ! 2, args ! 3, args ! 1)))
           (events (snd (this_case site_externs a ii jj im s))) =
         seen (on_call Compute_conditioning_value (\<lambda>args. (args ! 2, args ! 3, args ! 1)))
           (events s) @
         [(VInt (site_code a ! ii), VInt (probability_of_exceedance_num a ! jj),
           VStr (intensity_measures a ! im))]"
    and "seen stage_of (events (snd (this_case site_externs a ii jj im s))) =
         seen stage_of (events s) @ [Compute_conditioning_value, Inizialize_gmm]"
  using assms
  by (simp_all add: this_case_def run_case_def step_defs site_externs_fields site_vs30_def
      on_call_def stage_of_def pipeline_stages_def)

lemma plain_float_300: "plain_float ''300'' = Some 300"
  by code_simp

text \<open>
  A run with \<open>site_externs\<close> on values whose first site has \<open>vs30\<close> 300 and that
  have two intensity measures or more: the second Case fails.
\<close>

lemma site_run:
  assumes "indexable a" and "site_code a \<noteq> []" and "probability_of_exceedance_num a \<noteq> []"
    and "2 \<le> length (intensity_measures a)" and "vs30_input a = ''300'' # rest"
  shows "selection_module site_externs a w =
           this_case site_externs a 0 0 (Suc 0) (snd (this_case site_externs a 0 0 0 (started a w)))"
    and "vs30 (snd (this_case site_externs a 0 0 0 (started a w))) = VFlt 300"
proof -
  from assms(5) have v: "vs30 (started a w) = VList (VStr ''300'' # map VStr rest)"
    by (simp add: started_def vstrs_def)
  from assms(1,3,4) have i: "0 < length (probability_of_exceedance a)"
    "0 < length (im_type a)" "0 < length (tstar a)" "0 < length (im_type_lbl a)"
    by (auto simp add: indexable_def)
  from site_case_with_list(1,2) [OF v plain_float_300 i]
  have 1: "fst (this_case site_externs a 0 0 0 (started a w)) = Inr ()"
    and 2: "vs30 (snd (this_case site_externs a 0 0 0 (started a w))) = VFlt 300"
    by simp_all
  from site_case_with_float(1) [OF 2 i(1)]
  have 3: "fst (this_case site_externs a 0 0 (Suc 0) (snd (this_case site_externs a 0 0 0 (started a w)))) =
             Inl TypeError" .
  show "selection_module site_externs a w =
           this_case site_externs a 0 0 (Suc 0) (snd (this_case site_externs a 0 0 0 (started a w)))"
    by (rule second_case_fails [OF assms(1-4) 1 3])
  show "vs30 (snd (this_case site_externs a 0 0 0 (started a w))) = VFlt 300"
    by (rule 2)
qed

lemma site_run_seen:
  assumes "indexable a" and "site_code a \<noteq> []" and "probability_of_exceedance_num a \<noteq> []"
    and "2 \<le> length (intensity_measures a)" and "vs30_input a = ''300'' # rest"
  shows "fst (selection_module site_externs a w) = Inl TypeError"
    and "map (\<lambda>args. args ! 12)
           (calls_to Inizialize_gmm (events (snd (selection_module site_externs a w)))) =
         [vstrs (vs30_input a), VFlt 300]"
    and "map (\<lambda>args. args ! 11)
           (calls_to Screen_database (events (snd (selection_module site_externs a w)))) =
         [VFlt 300]"
    and "map (\<lambda>args. (args ! 2, args ! 3, args ! 1))
           (calls_to Compute_conditioning_value (events (snd (selection_module site_externs a w)))) =
         [(VInt (site_code a ! 0), VInt (probability_of_exceedance_num a ! 0),
           VStr (intensity_measures a ! 0)),
          (VInt (site_code a ! 0), VInt (probability_of_exceedance_num a ! 0),
           VStr (intensity_measures a ! Suc 0))]"
    and "seen stage_of (events (snd (selection_module site_externs a w))) =
         pipeline_stages @ [Compute_conditioning_value, Inizialize_gmm]"
proof -
  from assms(5) have v: "vs30 (started a w) = VList (VStr ''300'' # map VStr rest)"
    by (simp add: started_def vstrs_def)
  from assms(1,3,4) have i: "0 < length (probability_of_exceedance a)"
    "0 < length (im_type a)" "0 < length (tstar a)" "0 < length (im_type_lbl a)"
    by (auto simp add: indexable_def)
  note first = site_case_with_list [OF v plain_float_300 i]
  note second = site_case_with_float [OF site_run(2) [OF assms] i(1)]
  have e: "events (started a w) = [Print ''Inputs loaded, starting selection....'']"
    by (simp add: started_def)
  show "fst (selection_module site_externs a w) = Inl TypeError"
    by (simp add: site_run(1) [OF assms] second(1))
  show "map (\<lambda>args. args ! 12)
           (calls_to Inizialize_gmm (events (snd (selection_module site_externs a w)))) =
         [vstrs (vs30_input a), VFlt 300]"
    by (simp add: map_calls_to site_run(1) [OF assms] second(2) first(3) e on_call_def assms(5)
        vstrs_def)
  show "map (\<lambda>args. args ! 11)
           (calls_to Screen_database (events (snd (selection_module site_externs a w)))) =
         [VFlt 300]"
    by (simp add: map_calls_to site_run(1) [OF assms] second(3) first(4) e on_call_def)
  show "map (\<lambda>args. (args ! 2, args ! 3, args ! 1))
           (calls_to Compute_conditioning_value (events (snd (selection_module site_externs a w)))) =
         [(VInt (site_code a ! 0), VInt (probability_of_exceedance_num a ! 0),
           VStr (intensity_measures a ! 0)),
          (VInt (site_code a ! 0), VInt (probability_of_exceedance_num a ! 0),
           VStr (intensity_measures a ! Suc 0))]"
    unfolding map_calls_to site_run(1) [OF assms] second(4) first(5) e
    by (simp add: on_call_def)
  show "seen stage_of (events (snd (selection_module site_externs a w))) =
         pipeline_stages @ [Compute_conditioning_value, Inizialize_gmm]"
    by (simp add: site_run(1) [OF assms] second(5) first(6) e stage_of_def)
qed

lemma sa_first_facts:
  "indexable sa_first_data" "site_code sa_first_data \<noteq> []"
  "probability_of_exceedance_num sa_first_data \<noteq> []"
  "2 \<le> length (intensity_measures sa_first_data)" "vs30_input sa_first_data = ''300'' # [''600'']"
  "site_code sa_first_data ! 0 = 0" "probability_of_exceedance_num sa_first_data ! 0 = 2"
  "intensity_measures sa_first_data ! 0 = ''SA(0.5)''"
  "intensity_measures sa_first_data ! Suc 0 = ''PGA''"
  by (simp_all add: sa_first_data_def mini_data_def indexable_def)

lemma mini_facts:
  "vs30_input mini_data = ''300'' # [''600'']"
  "probability_of_exceedance_num mini_data ! 0 = 2"
  "intensity_measures mini_data ! 0 = ''AvgSA''" "intensity_measures mini_data ! Suc 0 = ''SA(0.5)''"
  by (simp_all add: mini_data_def)

text \<open>
  C1 at a failing input. With \<open>site_externs\<close>, the Case of site 0, level 2 and
  \<^verbatim>\<open>SA(0.5)\<close> passes the list of the input file as \<open>vs30\<close> to \<^verbatim>\<open>inizialize_gmm\<close>
  when it is the first Case of the run, and the float that \<^verbatim>\<open>inizialize_gmm\<close>
  returned in the Case before it when it is the second.
\<close>

theorem vs30_of_a_case_reaches_the_next:
  "map (\<lambda>args. (args ! 2, args ! 3, args ! 1))
     (calls_to Compute_conditioning_value (events (snd (selection_module site_externs mini_data [])))) =
     [(VInt 0, VInt 2, VStr ''AvgSA''), (VInt 0, VInt 2, VStr ''SA(0.5)'')] \<and>
   map (\<lambda>args. args ! 12)
     (calls_to Inizialize_gmm (events (snd (selection_module site_externs mini_data [])))) =
     [VList [VStr ''300'', VStr ''600''], VFlt 300] \<and>
   map (\<lambda>args. (args ! 2, args ! 3, args ! 1))
     (calls_to Compute_conditioning_value (events (snd (selection_module site_externs sa_first_data [])))) =
     [(VInt 0, VInt 2, VStr ''SA(0.5)''), (VInt 0, VInt 2, VStr ''PGA'')] \<and>
   map (\<lambda>args. args ! 12)
     (calls_to Inizialize_gmm (events (snd (selection_module site_externs sa_first_data [])))) =
     [VList [VStr ''300'', VStr ''600''], VFlt 300]"
  using site_run_seen(2,4) [OF mini_indexable mini_nonempty(1,2,4) mini_facts(1), of "[]"]
    site_run_seen(2,4) [OF sa_first_facts(1-5), of "[]"]
  by (simp add: mini_facts mini_nonempty sa_first_facts vstrs_def)

text \<open>
  C2 at a failing input. In the same run the stages are called in their order,
  but the second Case hands to its stage 2 the \<open>vs30\<close> that stage 2 of the first
  Case returned (the one stage 3 of the first Case was given), and the run ends
  there.
\<close>

theorem stage_two_takes_vs30_of_the_case_before:
  "seen stage_of (events (snd (selection_module site_externs mini_data []))) =
     pipeline_stages @ [Compute_conditioning_value, Inizialize_gmm] \<and>
   map (\<lambda>args. args ! 11)
     (calls_to Screen_database (events (snd (selection_module site_externs mini_data [])))) =
     [VFlt 300] \<and>
   map (\<lambda>args. args ! 12)
     (calls_to Inizialize_gmm (events (snd (selection_module site_externs mini_data [])))) ! 1 =
     VFlt 300 \<and>
   fst (selection_module site_externs mini_data []) = Inl TypeError"
  using site_run_seen(1,2,3,5) [OF mini_indexable mini_nonempty(1,2,4) mini_facts(1), of "[]"]
  by simp

section \<open>The random seed\<close>

lemma same_but_generator_refl: "same_but_generator s s"
  by (simp add: same_but_generator_def)

























section \<open>The files of \<open>scale_acc\<close>\<close>

subsection \<open>The names of the files\<close>










subsection \<open>One file\<close>







subsection \<open>One record, and all of them\<close>




text \<open>When the records can be read and the files opened, \<open>scale_acc\<close> returns.\<close>

lemma write_file_ok:
  assumes "can_open env fname" and "nat npts \<le> length time" and "nat npts \<le> length inp_acc"
    and "0 < npts \<longrightarrow> i < length sf"
  shows "fst (write_file env fname time inp_acc npts sf i fs) = Inr ()"
proof -
  have "fst (forS (write_sample env fname time inp_acc sf i) [0 ..< nat npts] (fs(fname \<mapsto> [])))
          = Inr ()"
  proof (rule forS_ok)
    fix j s
    assume "j \<in> set [0 ..< nat npts]"
    with assms show "fst (write_sample env fname time inp_acc sf i j s) = Inr ()"
      by (auto simp add: write_sample_def index_def)
  qed
  with assms(1) show ?thesis by (simp add: write_file_def)
qed

lemma scale_one_ok:
  assumes "read_acc env nga path_nga path_esm source event station i =
             Inr (time1, time2, acc1, acc2, npts1, npts2)"
    and "can_open env (out_file out_dir name i ''_1.txt'')"
    and "can_open env (out_file out_dir name i ''_2.txt'')"
    and "nat npts1 \<le> length time1" and "nat npts1 \<le> length acc1"
    and "nat npts2 \<le> length time2" and "nat npts2 \<le> length acc2"
    and "0 < npts1 \<or> 0 < npts2 \<longrightarrow> i < length sf"
  shows "fst (scale_one env nga path_nga path_esm source event station name out_dir sf i fs) = Inr ()"
proof -
  obtain r1 fs1 where 1: "write_file env (out_file out_dir name i ''_1.txt'') time1 acc1 npts1 sf i fs
      = (r1, fs1)"
    by (cases "write_file env (out_file out_dir name i ''_1.txt'') time1 acc1 npts1 sf i fs")
  from write_file_ok [of env "out_file out_dir name i ''_1.txt''" npts1 time1 acc1 i sf fs] assms 1
  have r1: "r1 = Inr ()" by simp
  from write_file_ok [of env "out_file out_dir name i ''_2.txt''" npts2 time2 acc2 i sf fs1] assms
  have "fst (write_file env (out_file out_dir name i ''_2.txt'') time2 acc2 npts2 sf i fs1) = Inr ()"
    by simp
  with assms(1) 1 r1 show ?thesis
    by (simp add: scale_one_def bindS_def liftE_def)
qed

lemma scale_acc_returns:
  assumes "\<And>i. i < nat ngm \<Longrightarrow> \<exists>time1 time2 acc1 acc2 npts1 npts2.
       read_acc env nga path_nga path_esm source event station i =
         Inr (time1, time2, acc1, acc2, npts1, npts2) \<and>
       can_open env (out_file out_dir name i ''_1.txt'') \<and>
       can_open env (out_file out_dir name i ''_2.txt'') \<and>
       nat npts1 \<le> length time1 \<and> nat npts1 \<le> length acc1 \<and>
       nat npts2 \<le> length time2 \<and> nat npts2 \<le> length acc2 \<and>
       (0 < npts1 \<or> 0 < npts2 \<longrightarrow> i < length sf)"
  shows "fst (scale_acc env ngm nga path_nga path_esm source event station name out_dir sf fs) = Inr ()"
  unfolding scale_acc_def
proof (rule forS_ok)
  fix i s
  assume "i \<in> set [0 ..< nat ngm]"
  then have "i < nat ngm" by simp
  from assms [OF this] show
    "fst (scale_one env nga path_nga path_esm source event station name out_dir sf i s) = Inr ()"
    by (auto intro: scale_one_ok)
qed







end
